theory Spec2Isabelle
  imports Complex_Main
begin

section \<open>JavaScript values used by the carrier integration\<close>

text \<open>
  A JavaScript number is a double. The finite ones are represented by their exact
  rational value, the three special values by constructors of their own. Negative
  zero is identified with zero. The parsers below return the exact value of the text
  they read: \<open>Fin q\<close> produced by a parser stands for the double nearest to \<open>q\<close>
  (see \<open>to_double\<close>, which the arithmetic operations and \<open>ToNumber\<close> apply).

  A JavaScript string is a \<open>string\<close>; a \<open>char\<close> is read as a code unit below 256.
\<close>

datatype jsnum = NaN | PosInfinity | NegInfinity | Fin rat

definition js_isNaN :: "jsnum \<Rightarrow> bool" where
  "js_isNaN x = (x = NaN)"

definition js_negate :: "jsnum \<Rightarrow> jsnum" where
  "js_negate x = (case x of NaN \<Rightarrow> NaN | PosInfinity \<Rightarrow> NegInfinity
     | NegInfinity \<Rightarrow> PosInfinity | Fin q \<Rightarrow> Fin (- q))"

text \<open>White space and line terminators that \<open>parseInt\<close>, \<open>parseFloat\<close> and
  \<open>Number\<close> trim: TAB, LF, VT, FF, CR, SP, NBSP.\<close>

definition js_isWhiteSpace :: "char \<Rightarrow> bool" where
  "js_isWhiteSpace c = ((of_char c :: nat) \<in> set [9, 10, 11, 12, 13, 32, 160])"

definition is_digit :: "char \<Rightarrow> bool" where
  "is_digit c = (48 \<le> (of_char c :: nat) \<and> (of_char c :: nat) \<le> 57)"

definition digit_val :: "char \<Rightarrow> nat" where
  "digit_val c = (of_char c :: nat) - 48"

definition digit_char :: "nat \<Rightarrow> char" where
  "digit_char d = char_of (48 + d)"

definition digits_value :: "string \<Rightarrow> nat" where
  "digits_value ds = foldl (\<lambda>a c. 10 * a + digit_val c) 0 ds"

text \<open>The decimal digits of a natural number, most significant first, \<open>0\<close> for zero.\<close>

fun decimal :: "nat \<Rightarrow> string" where
  "decimal n = (if n < 10 then [digit_char n] else decimal (n div 10) @ [digit_char (n mod 10)])"

declare decimal.simps [simp del]

text \<open>\<open>parseInt(s, 10)\<close>: leading white space is skipped, a sign is read, then the
  longest run of decimal digits; no digit at all gives \<open>NaN\<close>.\<close>

definition js_parseInt :: "string \<Rightarrow> jsnum" where
  "js_parseInt s =
     (let t = dropWhile js_isWhiteSpace s;
          neg = (t \<noteq> [] \<and> hd t = CHR ''-'');
          u = (if t \<noteq> [] \<and> (hd t = CHR ''-'' \<or> hd t = CHR ''+'') then tl t else t);
          z = takeWhile is_digit u
      in if z = [] then NaN
         else Fin (of_int ((if neg then - 1 else 1) * int (digits_value z))))"

definition pow10 :: "int \<Rightarrow> rat" where
  "pow10 e = (if 0 \<le> e then 10 ^ nat e else 1 / 10 ^ nat (- e))"

text \<open>\<open>ExponentPart\<close>: \<open>e\<close> or \<open>E\<close>, an optional sign and at least one digit. The
  result is the exponent and the text after it.\<close>

definition js_exponentPart :: "string \<Rightarrow> (int \<times> string) option" where
  "js_exponentPart s =
     (case s of
        [] \<Rightarrow> None
      | c # r \<Rightarrow>
          if c = CHR ''e'' \<or> c = CHR ''E'' then
            (let neg = (r \<noteq> [] \<and> hd r = CHR ''-'');
                 u = (if r \<noteq> [] \<and> (hd r = CHR ''-'' \<or> hd r = CHR ''+'') then tl r else r);
                 ds = takeWhile is_digit u
             in if ds = [] then None
                else Some ((if neg then - 1 else 1) * int (digits_value ds),
                           dropWhile is_digit u))
          else None)"

text \<open>The longest prefix that is a \<open>StrUnsignedDecimalLiteral\<close> (\<open>Infinity\<close>,
  \<open>12\<close>, \<open>12.\<close>, \<open>12.5\<close>, \<open>.5\<close>, each but the first with an optional exponent), its
  value and the text after it.\<close>

definition js_unsignedDecimalLiteral :: "string \<Rightarrow> (jsnum \<times> string) option" where
  "js_unsignedDecimalLiteral s =
     (if take 8 s = ''Infinity'' then Some (PosInfinity, drop 8 s)
      else
        (let ip = takeWhile is_digit s;
             r1 = dropWhile is_digit s;
             hasDot = (r1 \<noteq> [] \<and> hd r1 = CHR ''.'');
             fp = (if hasDot then takeWhile is_digit (tl r1) else []);
             r2 = (if hasDot then dropWhile is_digit (tl r1) else r1)
         in if ip = [] \<and> fp = [] then None
            else
              (let m = of_nat (digits_value ip) + of_nat (digits_value fp) / 10 ^ length fp
               in case js_exponentPart r2 of
                    None \<Rightarrow> Some (Fin m, r2)
                  | Some (e, r3) \<Rightarrow> Some (Fin (m * pow10 e), r3))))"

definition js_strDecimalLiteral :: "string \<Rightarrow> (jsnum \<times> string) option" where
  "js_strDecimalLiteral s =
     (case s of
        [] \<Rightarrow> None
      | c # r \<Rightarrow>
          if c = CHR ''+'' then js_unsignedDecimalLiteral r
          else if c = CHR ''-'' then
            map_option (\<lambda>(v, rest). (js_negate v, rest)) (js_unsignedDecimalLiteral r)
          else js_unsignedDecimalLiteral s)"

text \<open>\<open>parseFloat(s)\<close>: leading white space is skipped and the longest prefix that is
  a decimal literal is read; none gives \<open>NaN\<close>.\<close>

definition js_parseFloat :: "string \<Rightarrow> jsnum" where
  "js_parseFloat s =
     (case js_strDecimalLiteral (dropWhile js_isWhiteSpace s) of
        None \<Rightarrow> NaN
      | Some (v, _) \<Rightarrow> v)"

definition radix_digit :: "nat \<Rightarrow> char \<Rightarrow> nat option" where
  "radix_digit radix c =
     (let n = (of_char c :: nat);
          v = (if 48 \<le> n \<and> n \<le> 57 then Some (n - 48)
               else if 97 \<le> n \<and> n \<le> 102 then Some (n - 87)
               else if 65 \<le> n \<and> n \<le> 70 then Some (n - 55)
               else None)
      in case v of None \<Rightarrow> None | Some d \<Rightarrow> if d < radix then Some d else None)"

text \<open>\<open>NonDecimalIntegerLiteral\<close>: \<open>0x\<close>, \<open>0o\<close> or \<open>0b\<close> (either case) and at least
  one digit of that radix, nothing else.\<close>

definition js_nonDecimalIntegerLiteral :: "string \<Rightarrow> jsnum option" where
  "js_nonDecimalIntegerLiteral s =
     (case s of
        z # x # ds \<Rightarrow>
          (let radix = (if x = CHR ''x'' \<or> x = CHR ''X'' then 16
                        else if x = CHR ''o'' \<or> x = CHR ''O'' then 8
                        else if x = CHR ''b'' \<or> x = CHR ''B'' then 2 else (0::nat))
           in if z = CHR ''0'' \<and> radix \<noteq> 0 \<and> ds \<noteq> []
                 \<and> list_all (\<lambda>c. radix_digit radix c \<noteq> None) ds
              then Some (Fin (of_nat (foldl
                     (\<lambda>a c. radix * a + (case radix_digit radix c of Some d \<Rightarrow> d | None \<Rightarrow> 0))
                     0 ds)))
              else None)
      | _ \<Rightarrow> None)"

definition js_trim :: "string \<Rightarrow> string" where
  "js_trim s = rev (dropWhile js_isWhiteSpace (rev (dropWhile js_isWhiteSpace s)))"

text \<open>\<open>Number(s)\<close> for a string: white space is trimmed on both sides; the empty
  text is \<open>0\<close>; otherwise the whole text must be a numeric literal, else \<open>NaN\<close>.\<close>

definition js_Number :: "string \<Rightarrow> jsnum" where
  "js_Number s =
     (let t = js_trim s in
      if t = [] then Fin 0
      else case js_nonDecimalIntegerLiteral t of
        Some v \<Rightarrow> v
      | None \<Rightarrow>
          (case js_strDecimalLiteral t of
             Some (v, rest) \<Rightarrow> if rest = [] then v else NaN
           | None \<Rightarrow> NaN))"

text \<open>
  \<open>x.toFixed(f)\<close>. For a finite \<open>x\<close> below \<open>10^21\<close> in magnitude: the integer \<open>n\<close>
  nearest to \<open>|x| * 10^f\<close> (the larger one on a tie), written in decimal with the
  point before its last \<open>f\<close> digits, a minus sign first when \<open>x < 0\<close>. Otherwise the
  result is \<open>Number::toString\<close>, which is taken as a parameter.
\<close>

definition js_toFixed :: "(jsnum \<Rightarrow> string) \<Rightarrow> jsnum \<Rightarrow> nat \<Rightarrow> string" where
  "js_toFixed numToString x f =
     (case x of
        Fin q \<Rightarrow>
          (let s = (if q < 0 then ''-'' else []);
               a = \<bar>q\<bar>
           in if 10 ^ 21 \<le> a then s @ numToString (Fin a)
              else
                (let n = nat \<lfloor>a * 10 ^ f + 1 / 2\<rfloor>;
                     m0 = decimal n;
                     m1 = (if f \<noteq> 0 \<and> length m0 \<le> f
                           then replicate (f + 1 - length m0) (CHR ''0'') @ m0 else m0);
                     k = length m1
                 in s @ (if f \<noteq> 0 then take (k - f) m1 @ ''.'' @ drop (k - f) m1 else m1)))
      | _ \<Rightarrow> numToString x)"

section \<open>Doubles, dates and JSON values\<close>

text \<open>
  The double nearest to a rational: with \<open>e\<close> the binary exponent of its magnitude
  (at least \<open>-1022\<close>, where the subnormal numbers begin), the magnitude is rounded to a
  multiple of \<open>2^(e - 52)\<close>, to the even multiple on a tie; a result of \<open>2^1024\<close> or
  more is an infinity.
\<close>

function floor_log2 :: "int \<Rightarrow> nat" where
  "floor_log2 n = (if n < 2 then 0 else Suc (floor_log2 (n div 2)))"
  by auto

termination
  by (relation "measure nat") auto

declare floor_log2.simps [simp del]

definition pow2 :: "int \<Rightarrow> rat" where
  "pow2 e = (if 0 \<le> e then 2 ^ nat e else 1 / 2 ^ nat (- e))"

text \<open>\<open>\<lfloor>log\<^sub>2 a\<rfloor>\<close> for a positive \<open>a\<close>.\<close>

definition binary_exponent :: "rat \<Rightarrow> int" where
  "binary_exponent a =
     (if 1 \<le> a then int (floor_log2 \<lfloor>a\<rfloor>)
      else - int (Suc (floor_log2 (\<lceil>1 / a\<rceil> - 1))))"

definition round_half_even :: "rat \<Rightarrow> int" where
  "round_half_even x =
     (let f = \<lfloor>x\<rfloor>; d = x - of_int f
      in if d < 1 / 2 then f else if 1 / 2 < d then f + 1 else if even f then f else f + 1)"

definition to_double :: "rat \<Rightarrow> jsnum" where
  "to_double q =
     (if q = 0 then Fin 0
      else
        (let a = \<bar>q\<bar>;
             e = max (binary_exponent a) (- 1022);
             ulp = pow2 (e - 52);
             r = of_int (round_half_even (a / ulp)) * ulp
         in if pow2 1024 \<le> r then (if q < 0 then NegInfinity else PosInfinity)
            else Fin (if q < 0 then - r else r)))"

definition js_double :: "jsnum \<Rightarrow> jsnum" where
  "js_double x = (case x of Fin q \<Rightarrow> to_double q | _ \<Rightarrow> x)"

text \<open>The operators \<open>+\<close>, \<open>*\<close>, \<open>-\<close> and \<open><\<close> on numbers.\<close>

fun js_add :: "jsnum \<Rightarrow> jsnum \<Rightarrow> jsnum" where
  "js_add NaN _ = NaN"
| "js_add _ NaN = NaN"
| "js_add (Fin a) (Fin b) = to_double (a + b)"
| "js_add PosInfinity NegInfinity = NaN"
| "js_add NegInfinity PosInfinity = NaN"
| "js_add PosInfinity _ = PosInfinity"
| "js_add NegInfinity _ = NegInfinity"
| "js_add _ y = y"

fun js_mul :: "jsnum \<Rightarrow> jsnum \<Rightarrow> jsnum" where
  "js_mul NaN _ = NaN"
| "js_mul _ NaN = NaN"
| "js_mul (Fin a) (Fin b) = to_double (a * b)"
| "js_mul (Fin a) y = (if a = 0 then NaN else if 0 < a then y else js_negate y)"
| "js_mul x (Fin b) = (if b = 0 then NaN else if 0 < b then x else js_negate x)"
| "js_mul x y = (if x = y then PosInfinity else NegInfinity)"

definition js_sub :: "jsnum \<Rightarrow> jsnum \<Rightarrow> jsnum" where
  "js_sub x y = js_add x (js_negate y)"

fun js_less :: "jsnum \<Rightarrow> jsnum \<Rightarrow> bool" where
  "js_less NaN _ = False"
| "js_less _ NaN = False"
| "js_less (Fin a) (Fin b) = (a < b)"
| "js_less PosInfinity _ = False"
| "js_less _ NegInfinity = False"
| "js_less _ _ = True"

text \<open>
  A \<open>Date\<close> holds a time value, an integral number of milliseconds since the epoch of
  magnitude at most \<open>8.64 * 10^15\<close>, or is invalid. \<open>new Date(x)\<close> for a number \<open>x\<close>
  clips it (\<open>TimeClip\<close>): a value that is not finite or is out of range gives the
  invalid date, any other one is truncated towards zero. \<open>getTime()\<close> of the invalid
  date is \<open>NaN\<close>.
\<close>

datatype Date = InvalidDate | TimeValue int

definition isTimeValue :: "int \<Rightarrow> bool" where
  "isTimeValue t = (\<bar>t\<bar> \<le> 8640000000000000)"

definition new_Date :: "jsnum \<Rightarrow> Date" where
  "new_Date x =
     (case x of
        Fin q \<Rightarrow>
          if 8640000000000000 < \<bar>q\<bar> then InvalidDate
          else TimeValue (if 0 \<le> q then \<lfloor>q\<rfloor> else \<lceil>q\<rceil>)
      | _ \<Rightarrow> InvalidDate)"

definition getTime :: "Date \<Rightarrow> jsnum" where
  "getTime d = (case d of InvalidDate \<Rightarrow> NaN | TimeValue t \<Rightarrow> Fin (of_int t))"

text \<open>
  A value as \<open>JSON.parse\<close> can produce one, and \<open>undefined\<close>. An object is the list of
  its properties, each name once.
\<close>

datatype jsval =
    Undefined
  | Null
  | Boolean bool
  | Number jsnum
  | String string
  | Array "jsval list"
  | Object "(string \<times> jsval) list"

text \<open>
  \<open>v.name\<close> for a value \<open>v\<close> that is neither \<open>undefined\<close> nor \<open>null\<close> (on those the
  read throws a \<open>TypeError\<close>) and a name that no built-in prototype defines: the
  property of an object, \<open>undefined\<close> when the object has none of that name or the value
  is not an object.
\<close>

definition field :: "string \<Rightarrow> jsval \<Rightarrow> jsval" where
  "field name v =
     (case v of
        Object ps \<Rightarrow> (case map_of ps name of Some x \<Rightarrow> x | None \<Rightarrow> Undefined)
      | _ \<Rightarrow> Undefined)"

text \<open>
  \<open>ToNumber\<close>, which \<open>*\<close> applies to its operands. An array is first turned into
  the text of its elements joined by commas: none gives the empty text, one gives the
  text of that element (empty for \<open>undefined\<close> and \<open>null\<close>; a number is read back from
  its own text unchanged), and two or more give a text with a comma, which is not a
  numeral. An object gives \<open>[object Object]\<close>, which is not a numeral either.
\<close>

fun js_ToNumber :: "jsval \<Rightarrow> jsnum" where
  "js_ToNumber Undefined = NaN"
| "js_ToNumber Null = Fin 0"
| "js_ToNumber (Boolean b) = Fin (if b then 1 else 0)"
| "js_ToNumber (Number x) = js_double x"
| "js_ToNumber (String s) = js_double (js_Number s)"
| "js_ToNumber (Object _) = NaN"
| "js_ToNumber (Array []) = Fin 0"
| "js_ToNumber (Array [Undefined]) = Fin 0"
| "js_ToNumber (Array [Null]) = Fin 0"
| "js_ToNumber (Array [Boolean _]) = NaN"
| "js_ToNumber (Array [Number x]) = js_double x"
| "js_ToNumber (Array [String s]) = js_double (js_Number s)"
| "js_ToNumber (Array [Object _]) = NaN"
| "js_ToNumber (Array [Array ys]) = js_ToNumber (Array ys)"
| "js_ToNumber (Array (_ # _ # _)) = NaN"

section \<open>Error taxonomy (errors/index.ts)\<close>

text \<open>
  One constructor per concrete subclass of \<open>CarrierServiceError\<close>, with the fields
  the constructor of the class stores; \<open>timestamp\<close> and \<open>originalError\<close> are
  diagnostic only and left out. \<open>InvalidCredentialsError\<close> extends
  \<open>AuthenticationError\<close>: see \<open>instanceof_AuthenticationError\<close>.
\<close>

datatype CarrierServiceError =
    ValidationError string "string list" "string option"
      \<comment> \<open>message, issue paths, carrier\<close>
  | AuthenticationError string "string option" "int option"
      \<comment> \<open>message, carrier, httpStatus\<close>
  | InvalidCredentialsError string
      \<comment> \<open>carrier\<close>
  | TimeoutError string int "string option" "string option"
      \<comment> \<open>message, timeoutMs, carrier, requestId\<close>
  | NetworkError string "string option"
      \<comment> \<open>message, carrier\<close>
  | CarrierApiError string int "string option" "string option"
      \<comment> \<open>message, httpStatus, carrier, requestId\<close>
  | RateLimitError string "jsnum option" "string option"
      \<comment> \<open>carrier, retryAfterSeconds, requestId\<close>
  | ResponseParsingError string "string option" "string option"
      \<comment> \<open>message, carrier, requestId\<close>
  | ConfigurationError string "string option"
      \<comment> \<open>message, carrier\<close>

fun error_code :: "CarrierServiceError \<Rightarrow> string" where
  "error_code (ValidationError _ _ _) = ''VALIDATION_ERROR''"
| "error_code (AuthenticationError _ _ _) = ''AUTHENTICATION_ERROR''"
| "error_code (InvalidCredentialsError _) = ''INVALID_CREDENTIALS''"
| "error_code (TimeoutError _ _ _ _) = ''TIMEOUT_ERROR''"
| "error_code (NetworkError _ _) = ''NETWORK_ERROR''"
| "error_code (CarrierApiError _ _ _ _) = ''CARRIER_API_ERROR''"
| "error_code (RateLimitError _ _ _) = ''RATE_LIMIT_ERROR''"
| "error_code (ResponseParsingError _ _ _) = ''RESPONSE_PARSING_ERROR''"
| "error_code (ConfigurationError _ _) = ''CONFIGURATION_ERROR''"

fun isRetryable :: "CarrierServiceError \<Rightarrow> bool" where
  "isRetryable (ValidationError _ _ _) = False"
| "isRetryable (AuthenticationError _ _ _) = False"
| "isRetryable (InvalidCredentialsError _) = False"
| "isRetryable (TimeoutError _ _ _ _) = True"
| "isRetryable (NetworkError _ _) = True"
| "isRetryable (CarrierApiError _ httpStatus _ _) = (httpStatus \<ge> 500 \<or> httpStatus = 429)"
| "isRetryable (RateLimitError _ _ _) = True"
| "isRetryable (ResponseParsingError _ _ _) = False"
| "isRetryable (ConfigurationError _ _) = False"

fun instanceof_AuthenticationError :: "CarrierServiceError \<Rightarrow> bool" where
  "instanceof_AuthenticationError (AuthenticationError _ _ _) = True"
| "instanceof_AuthenticationError (InvalidCredentialsError _) = True"
| "instanceof_AuthenticationError _ = False"

fun error_httpStatus :: "CarrierServiceError \<Rightarrow> int option" where
  "error_httpStatus (AuthenticationError _ _ st) = st"
| "error_httpStatus (CarrierApiError _ st _ _) = Some st"
| "error_httpStatus _ = None"

text \<open>The number in a template string such as \<open>`API error ${status}`\<close>; a status is
  an integer.\<close>

definition int_to_string :: "int \<Rightarrow> string" where
  "int_to_string i = (if i < 0 then CHR ''-'' # decimal (nat (- i)) else decimal (nat i))"

section \<open>HTTP transport (axios), as far as the code inspects it\<close>

record 'a AxiosResponse =
  status :: int
  headers :: "(string \<times> string) list"
  data :: 'a

text \<open>An \<open>AxiosError\<close>: its \<open>code\<close> and, when the server answered, the response
  with its body.\<close>

record AxiosError =
  ax_code :: "string option"
  ax_response :: "jsval AxiosResponse option"

text \<open>What a \<open>catch\<close> clause can receive: one of the classified errors, an axios error
  (\<open>axios.isAxiosError\<close>), or any other value.\<close>

datatype thrown = Classified CarrierServiceError | AxiosFailure AxiosError | OtherFailure string

datatype 'a settled = Fulfilled 'a | Rejected thrown

section \<open>Configuration (the fields of UPSConfig)\<close>

record UPSConfig =
  carrierId :: string
  carrierName :: string
  clientId :: string
  clientSecret :: string
  accountNumber :: string
  baseUrl :: string
  tokenUrl :: string
  timeoutMs :: int
  supportedCountries :: "string list"

section \<open>Token cache and refresh coordinator (carriers/ups/auth.ts)\<close>

text \<open>
  The cached credential. The token and its type are whatever the reply held under
  \<open>access_token\<close> and \<open>token_type\<close>; the expiry is a \<open>Date\<close>.
\<close>

record CachedToken =
  accessToken :: jsval
  expiresAt :: Date
  tokenType :: jsval

text \<open>The fields of the token reply (\<open>UPSTokenResponse\<close>) that \<open>refreshToken\<close>
  reads from the body.\<close>

definition access_token :: "jsval \<Rightarrow> jsval" where
  "access_token tokenData = field ''access_token'' tokenData"

definition expires_in :: "jsval \<Rightarrow> jsval" where
  "expires_in tokenData = field ''expires_in'' tokenData"

definition token_type :: "jsval \<Rightarrow> jsval" where
  "token_type tokenData = field ''token_type'' tokenData"

definition TOKEN_EXPIRY_BUFFER_MS :: int where
  "TOKEN_EXPIRY_BUFFER_MS = 5 * 60 * 1000"

text \<open>
  The manager's two fields, and what the event loop holds for it: the promises
  \<open>refreshToken()\<close> has returned (numbered in order of creation; \<open>settled\<close> lists
  the ones that are settled, with their outcome) and the POSTs sent to the token
  endpoint, each tagged with the promise of the \<open>refreshToken()\<close> call that sent it.
  The clock (\<open>new Date()\<close>, \<open>Date.now()\<close>) is read as a time value, in milliseconds
  since the epoch.
\<close>

record token_post =
  tp_promise :: nat
  tp_url :: string
  tp_basic :: string

record UPSAuthManager =
  cachedToken :: "CachedToken option"
  tokenRefreshPromise :: "nat option"
  nextPromise :: nat
  settled :: "(nat \<times> (CarrierServiceError + jsval)) list"
  tokenPosts :: "token_post list"

text \<open>The manager as the constructor leaves it.\<close>

definition newAuthManager :: UPSAuthManager where
  "newAuthManager =
     \<lparr>cachedToken = None, tokenRefreshPromise = None, nextPromise = 0, settled = [],
      tokenPosts = []\<rparr>"

text \<open>\<open>isTokenValid()\<close>: the clock, as a date, is compared with the date built from
  the expiry less the buffer.\<close>

definition isTokenValid :: "int \<Rightarrow> UPSAuthManager \<Rightarrow> bool" where
  "isTokenValid now s =
     (case cachedToken s of
        None \<Rightarrow> False
      | Some t \<Rightarrow>
          (let bufferTime = new_Date (js_sub (getTime (expiresAt t))
                                        (Fin (of_int TOKEN_EXPIRY_BUFFER_MS)))
           in js_less (getTime (TimeValue now)) (getTime bufferTime)))"

definition auth_handleAxiosError :: "UPSConfig \<Rightarrow> AxiosError \<Rightarrow> CarrierServiceError" where
  "auth_handleAxiosError cfg e =
     (if ax_code e = Some ''ECONNABORTED'' \<or> ax_code e = Some ''ETIMEDOUT'' then
        TimeoutError ''Token request timed out'' (timeoutMs cfg) (Some ''UPS'') None
      else if ax_code e = Some ''ENOTFOUND'' \<or> ax_code e = Some ''ECONNREFUSED'' then
        NetworkError ''Failed to connect to UPS authentication server'' (Some ''UPS'')
      else case ax_response e of
        Some r \<Rightarrow>
          if status r = 401 \<or> status r = 403 then InvalidCredentialsError ''UPS''
          else AuthenticationError
                 (''UPS authentication failed with status '' @ int_to_string (status r))
                 (Some ''UPS'') (Some (status r))
      | None \<Rightarrow> NetworkError ''Network error during UPS authentication'' (Some ''UPS''))"

text \<open>The \<open>catch\<close> clause of \<open>refreshToken\<close>.\<close>

definition refreshToken_catch :: "UPSConfig \<Rightarrow> thrown \<Rightarrow> CarrierServiceError" where
  "refreshToken_catch cfg e =
     (case e of
        Classified c \<Rightarrow>
          if instanceof_AuthenticationError c then c
          else AuthenticationError ''Failed to obtain UPS access token'' (Some ''UPS'') None
      | AxiosFailure a \<Rightarrow> auth_handleAxiosError cfg a
      | OtherFailure _ \<Rightarrow>
          AuthenticationError ''Failed to obtain UPS access token'' (Some ''UPS'') None)"

text \<open>
  \<open>refreshToken()\<close> up to its first \<open>await\<close>: with a missing client id or secret it
  throws, so the promise it returns is rejected at once and nothing is sent; otherwise
  the POST is sent and the promise is pending. The result is the promise.
\<close>

definition refreshToken_begin :: "UPSConfig \<Rightarrow> UPSAuthManager \<Rightarrow> nat \<times> UPSAuthManager" where
  "refreshToken_begin cfg s =
     (let p = nextPromise s in
      if clientId cfg = [] \<or> clientSecret cfg = [] then
        (p, s\<lparr>nextPromise := p + 1,
               settled := (p, Inl (InvalidCredentialsError ''UPS'')) # settled s\<rparr>)
      else
        (p, s\<lparr>nextPromise := p + 1,
               tokenPosts := tokenPosts s @
                 [\<lparr>tp_promise = p, tp_url = tokenUrl cfg,
                   tp_basic = clientId cfg @ '':'' @ clientSecret cfg\<rparr>]\<rparr>))"

text \<open>
  \<open>refreshToken()\<close> after the POST of promise \<open>p\<close> has settled with \<open>reply\<close> at time
  \<open>now\<close>. The body of a response is not inspected: \<open>tokenData.access_token\<close> throws
  a \<open>TypeError\<close> when the body is \<open>undefined\<close> or \<open>null\<close>, which the \<open>catch\<close> clause
  wraps like any other failure; any other body is the token data. The new credential
  is then stored in one assignment, its expiry the date
  \<open>new Date(Date.now() + tokenData.expires_in * 1000)\<close>, and the promise is resolved
  with the token.
\<close>

definition refreshToken_result ::
  "UPSConfig \<Rightarrow> jsval AxiosResponse settled \<Rightarrow> CarrierServiceError + jsval" where
  "refreshToken_result cfg reply =
     (case reply of
        Fulfilled resp \<Rightarrow>
          if data resp = Undefined \<or> data resp = Null
          then Inl (refreshToken_catch cfg (OtherFailure ''TypeError''))
          else Inr (data resp)
      | Rejected e \<Rightarrow> Inl (refreshToken_catch cfg e))"

definition refreshToken_settle ::
  "UPSConfig \<Rightarrow> int \<Rightarrow> jsval AxiosResponse settled \<Rightarrow> nat
     \<Rightarrow> UPSAuthManager \<Rightarrow> UPSAuthManager" where
  "refreshToken_settle cfg now reply p s =
     (case refreshToken_result cfg reply of
        Inr tokenData \<Rightarrow>
          s\<lparr>cachedToken :=
              Some \<lparr>accessToken = access_token tokenData,
                    expiresAt = new_Date (js_add (Fin (of_int now))
                                  (js_mul (js_ToNumber (expires_in tokenData)) (Fin 1000))),
                    tokenType = token_type tokenData\<rparr>,
            settled := (p, Inr (access_token tokenData)) # settled s\<rparr>
      | Inl e \<Rightarrow> s\<lparr>settled := (p, Inl e) # settled s\<rparr>)"

text \<open>
  What a call of \<open>getAccessToken()\<close> does before it returns or first suspends: it
  returns the cached token, or returns the promise found in the marker, or starts a
  refresh, stores its promise in the marker and awaits it.
\<close>

datatype call = Cached jsval | Joined nat | Started nat | Threw string

definition getAccessToken_enter :: "UPSConfig \<Rightarrow> int \<Rightarrow> UPSAuthManager \<Rightarrow> call \<times> UPSAuthManager" where
  "getAccessToken_enter cfg now s =
     (if isTokenValid now s then
        (case cachedToken s of
           Some t \<Rightarrow> (Cached (accessToken t), s)
         | None \<Rightarrow> (Threw ''TypeError'', s))
      else case tokenRefreshPromise s of
        Some p \<Rightarrow> (Joined p, s)
      | None \<Rightarrow>
          (let (p, s') = refreshToken_begin cfg s
           in (Started p, s'\<lparr>tokenRefreshPromise := Some p\<rparr>)))"

definition forceRefresh_enter :: "UPSConfig \<Rightarrow> int \<Rightarrow> UPSAuthManager \<Rightarrow> call \<times> UPSAuthManager" where
  "forceRefresh_enter cfg now s = getAccessToken_enter cfg now (s\<lparr>cachedToken := None\<rparr>)"

text \<open>The \<open>finally\<close> block of the call that started the refresh, run when it resumes.\<close>

definition getAccessToken_finally :: "UPSAuthManager \<Rightarrow> UPSAuthManager" where
  "getAccessToken_finally s = s\<lparr>tokenRefreshPromise := None\<rparr>"

text \<open>What a caller receives once the promise it waits on is settled.\<close>

definition call_outcome :: "UPSAuthManager \<Rightarrow> call \<Rightarrow> (CarrierServiceError + jsval) option" where
  "call_outcome s c =
     (case c of
        Cached tok \<Rightarrow> Some (Inr tok)
      | Joined p \<Rightarrow> map_of (settled s) p
      | Started p \<Rightarrow> map_of (settled s) p
      | Threw _ \<Rightarrow> None)"

text \<open>\<open>n\<close> calls of \<open>getAccessToken()\<close> that all enter before any of them resumes, at
  the given times.\<close>

fun concurrent_calls :: "UPSConfig \<Rightarrow> int list \<Rightarrow> UPSAuthManager \<Rightarrow> call list \<times> UPSAuthManager" where
  "concurrent_calls cfg [] s = ([], s)"
| "concurrent_calls cfg (now # later) s =
     (let (c, s1) = getAccessToken_enter cfg now s;
          (cs, s2) = concurrent_calls cfg later s1
      in (c # cs, s2))"

text \<open>The reply to the POST of promise \<open>p\<close> arrives at time \<open>now\<close>: \<open>refreshToken()\<close>
  finishes, then the call that started it resumes and runs its \<open>finally\<close> block.\<close>

definition refresh_settles ::
  "UPSConfig \<Rightarrow> int \<Rightarrow> jsval AxiosResponse settled \<Rightarrow> nat
     \<Rightarrow> UPSAuthManager \<Rightarrow> UPSAuthManager" where
  "refresh_settles cfg now reply p s =
     getAccessToken_finally (refreshToken_settle cfg now reply p s)"

text \<open>\<open>clearCache()\<close>.\<close>

definition clearCache :: "UPSAuthManager \<Rightarrow> UPSAuthManager" where
  "clearCache s = s\<lparr>cachedToken := None, tokenRefreshPromise := None\<rparr>"

section \<open>Domain model (domain/models.ts)\<close>

datatype WeightUnit = LB | KG

datatype DimensionUnit = IN | CM

datatype ServiceLevel = GROUND | EXPRESS | STANDARD

fun WeightUnit_str :: "WeightUnit \<Rightarrow> string" where
  "WeightUnit_str LB = ''LB''"
| "WeightUnit_str KG = ''KG''"

fun DimensionUnit_str :: "DimensionUnit \<Rightarrow> string" where
  "DimensionUnit_str IN = ''IN''"
| "DimensionUnit_str CM = ''CM''"

record Address =
  addressLines :: "string list"
  city :: string
  stateProvinceCode :: string
  postalCode :: string
  countryCode :: string

record Weight =
  weight_value :: jsnum
  weight_unit :: WeightUnit

record Dimensions =
  dim_length :: jsnum
  dim_width :: jsnum
  dim_height :: jsnum
  dim_unit :: DimensionUnit

record Package =
  weight :: Weight
  dimensions :: "Dimensions option"

record RateRequest =
  origin :: Address
  destination :: Address
  shipper_name :: string
  packages :: "Package list"
  serviceLevel :: "ServiceLevel option"

record Money =
  amount :: jsnum
  currency :: string

record QuoteWeight =
  qw_value :: jsnum
  qw_unit :: string

record RateQuote =
  quote_serviceLevel :: string
  serviceName :: string
  carrierServiceCode :: string
  totalCost :: Money
  transportationCost :: "Money option"
  serviceOptionsCost :: "Money option"
  billingWeight :: "QuoteWeight option"
  businessDaysInTransit :: "jsnum option"
  warnings :: "string list option"

record ResponseStatus =
  rs_Code :: string
  rs_Description :: string

text \<open>The domain \<open>RateResponse\<close>:
  \<open>{RateResponse: {Response: {ResponseStatus}, RatedShipment}}\<close>.\<close>

record RateResponse =
  Response_ResponseStatus :: ResponseStatus
  RatedShipment :: "RateQuote list"

section \<open>Wire format (carriers/ups/types.ts), the fields the mapper reads or writes\<close>

record UPSRequest =
  RequestOption :: string
  TransactionReference_CustomerContext :: "string option"

record UPSShipper =
  Shipper_Name :: string
  ShipperNumber :: string
  Shipper_Address :: Address

record UPSParty =
  Party_Name :: string
  Party_Address :: Address

record UPSPackageDimensions =
  Dimensions_UnitCode :: string
  Dimensions_Length :: string
  Dimensions_Width :: string
  Dimensions_Height :: string

record UPSPackage =
  PackagingType_Code :: string
  PackagingType_Description :: string
  PackageWeight_UnitCode :: string
  PackageWeight_Weight :: string
  Package_Dimensions :: "UPSPackageDimensions option"

record UPSShipment =
  Shipper :: UPSShipper
  ShipTo :: UPSParty
  ShipFrom :: UPSParty
  Package :: "UPSPackage list"
  NegotiatedRatesIndicator :: string

record UPSRateRequest =
  Request :: UPSRequest
  Shipment :: UPSShipment

record UPSCharges =
  CurrencyCode :: string
  MonetaryValue :: string

record UPSBillingWeight =
  BillingWeight_UnitCode :: string
  BillingWeight_Weight :: string

record UPSAlert =
  Alert_Code :: string
  Alert_Description :: string

record UPSRatedShipment =
  Service_Code :: string
  Service_Description :: "string option"
  BillingWeight :: "UPSBillingWeight option"
  TransportationCharges :: "UPSCharges option"
  ServiceOptionsCharges :: "UPSCharges option"
  TotalCharges :: UPSCharges
  GuaranteedDelivery :: "string option option"
    \<comment> \<open>the block, and in it \<open>BusinessDaysInTransit\<close>\<close>
  RatedShipmentAlert :: "UPSAlert list option"

record UPSRateResponse =
  Response :: "ResponseStatus option"
  UPS_RatedShipment :: "UPSRatedShipment list"

section \<open>Request and response mapper (carriers/ups/mapper.ts)\<close>

text \<open>\<open>Number::toString\<close>, which renders the dimensions, is taken as a parameter.\<close>

definition toUPSPackage :: "(jsnum \<Rightarrow> string) \<Rightarrow> Package \<Rightarrow> UPSPackage" where
  "toUPSPackage numToString pkg =
     \<lparr>PackagingType_Code = ''02'',
      PackagingType_Description = ''YOUR_PACKAGING'',
      PackageWeight_UnitCode = WeightUnit_str (weight_unit (weight pkg)),
      PackageWeight_Weight = js_toFixed numToString (weight_value (weight pkg)) 1,
      Package_Dimensions =
        (case dimensions pkg of
           Some d \<Rightarrow>
             Some \<lparr>Dimensions_UnitCode = DimensionUnit_str (dim_unit d),
                   Dimensions_Length = numToString (dim_length d),
                   Dimensions_Width = numToString (dim_width d),
                   Dimensions_Height = numToString (dim_height d)\<rparr>
         | None \<Rightarrow> None)\<rparr>"

definition toUPSRateRequest ::
  "(jsnum \<Rightarrow> string) \<Rightarrow> RateRequest \<Rightarrow> string \<Rightarrow> string option \<Rightarrow> UPSRateRequest" where
  "toUPSRateRequest numToString request shipperNumber customerContext =
     \<lparr>Request =
        \<lparr>RequestOption = (if serviceLevel request \<noteq> None then ''Rate'' else ''Shop''),
         TransactionReference_CustomerContext =
           (case customerContext of
              Some c \<Rightarrow> if c \<noteq> [] then Some c else None
            | None \<Rightarrow> None)\<rparr>,
      Shipment =
        \<lparr>Shipper = \<lparr>Shipper_Name = shipper_name request, ShipperNumber = shipperNumber,
                     Shipper_Address = origin request\<rparr>,
         ShipTo = \<lparr>Party_Name = ''Recipient'', Party_Address = destination request\<rparr>,
         ShipFrom = \<lparr>Party_Name = shipper_name request, Party_Address = origin request\<rparr>,
         Package = map (toUPSPackage numToString) (packages request),
         NegotiatedRatesIndicator = ''Y''\<rparr>\<rparr>"

definition toMoney :: "UPSCharges \<Rightarrow> Money" where
  "toMoney c = \<lparr>amount = js_parseFloat (MonetaryValue c), currency = CurrencyCode c\<rparr>"

text \<open>\<open>a || b\<close> on an optional string: \<open>b\<close> when \<open>a\<close> is missing or empty.\<close>

definition or_default :: "string option \<Rightarrow> string \<Rightarrow> string" where
  "or_default a b = (case a of Some s \<Rightarrow> if s \<noteq> [] then s else b | None \<Rightarrow> b)"

definition toRateQuote :: "UPSRatedShipment \<Rightarrow> RateQuote" where
  "toRateQuote rated =
     \<lparr>quote_serviceLevel = or_default (Service_Description rated) ''STANDARD'',
      serviceName = or_default (Service_Description rated) ''UPS Service'',
      carrierServiceCode = Service_Code rated,
      totalCost = toMoney (TotalCharges rated),
      transportationCost = map_option toMoney (TransportationCharges rated),
      serviceOptionsCost = map_option toMoney (ServiceOptionsCharges rated),
      billingWeight =
        map_option
          (\<lambda>b. \<lparr>qw_value = js_parseFloat (BillingWeight_Weight b),
                 qw_unit = BillingWeight_UnitCode b\<rparr>)
          (BillingWeight rated),
      businessDaysInTransit =
        (case GuaranteedDelivery rated of
           Some (Some days) \<Rightarrow>
             if days \<noteq> [] \<and> \<not> js_isNaN (js_Number days) then Some (js_parseInt days)
             else None
         | _ \<Rightarrow> None),
      warnings = map_option (map Alert_Description) (RatedShipmentAlert rated)\<rparr>"

definition fromUPSRateResponse :: "UPSRateResponse \<Rightarrow> string \<Rightarrow> RateRequest \<Rightarrow> RateResponse" where
  "fromUPSRateResponse upsResponse requestId originalRequest =
     \<lparr>Response_ResponseStatus = \<lparr>rs_Code = ''1'', rs_Description = ''Success''\<rparr>,
      RatedShipment = map toRateQuote (UPS_RatedShipment upsResponse)\<rparr>"

section \<open>Rate service (carriers/ups/service.ts)\<close>

text \<open>
  The body of a rating reply as received, as far as the service and the mapper look
  into it. The body, and \<open>RateResponse\<close> in it, may be missing (\<open>undefined\<close> or
  \<open>null\<close>, or a value that has no such property). What \<open>RatedShipment\<close> holds is
  either an array, whose elements are taken to be rated shipments of the declared
  shape, or any value that is not an array, \<open>undefined\<close> when the property is absent.
\<close>

datatype RatedShipment_value =
    Shipments "UPSRatedShipment list"
  | Absent
  | NullValue
  | BooleanValue bool
  | NumberValue jsnum
  | StringValue string
  | ObjectValue "(string \<times> jsval) list"

text \<open>What \<open>!v\<close> tests: every value counts as true but \<open>undefined\<close>, \<open>null\<close>,
  \<open>false\<close>, zero, \<open>NaN\<close> and the empty string.\<close>

fun value_truthy :: "RatedShipment_value \<Rightarrow> bool" where
  "value_truthy (Shipments _) = True"
| "value_truthy Absent = False"
| "value_truthy NullValue = False"
| "value_truthy (BooleanValue b) = b"
| "value_truthy (NumberValue x) = (x \<noteq> NaN \<and> x \<noteq> Fin 0)"
| "value_truthy (StringValue s) = (s \<noteq> [])"
| "value_truthy (ObjectValue _) = True"

record rate_block =
  block_Response :: "ResponseStatus option"
  block_RatedShipment :: RatedShipment_value

record rate_body =
  body_RateResponse :: "rate_block option"

text \<open>
  What the service does not own: the schema validation (\<open>zodParse\<close>: the issue paths,
  or the parsed request), the reply to the POST of each refresh promise with the time
  it arrives, and the reply to each POST to the rating endpoint, in the order sent.
\<close>

record environment =
  zodParse :: "RateRequest \<Rightarrow> string list + RateRequest"
  tokenReply :: "nat \<Rightarrow> int \<times> jsval AxiosResponse settled"
  ratingReply :: "nat \<Rightarrow> rate_body option AxiosResponse settled"

text \<open>A POST to the rating endpoint: the wire request, the access token that follows
  \<open>Bearer\<close> in the \<open>Authorization\<close> header, and the \<open>transId\<close> header.\<close>

record rating_post =
  rp_request :: UPSRateRequest
  rp_bearer :: jsval
  rp_transId :: string

record service_world =
  authManager :: UPSAuthManager
  ratingPosts :: "rating_post list"

text \<open>\<open>getAccessToken()\<close> and \<open>forceRefresh()\<close> run to completion by a caller that
  has the manager to itself: a pending refresh is awaited, its reply taken from the
  environment.\<close>

definition await_refresh ::
  "UPSConfig \<Rightarrow> environment \<Rightarrow> nat \<Rightarrow> UPSAuthManager
     \<Rightarrow> (CarrierServiceError + jsval) \<times> UPSAuthManager" where
  "await_refresh cfg env p s =
     (case map_of (settled s) p of
        Some r \<Rightarrow> (r, getAccessToken_finally s)
      | None \<Rightarrow>
          (let (t, reply) = tokenReply env p
           in (map_sum id access_token (refreshToken_result cfg reply),
               refresh_settles cfg t reply p s)))"

definition complete_call ::
  "UPSConfig \<Rightarrow> environment \<Rightarrow> call \<times> UPSAuthManager \<Rightarrow> (thrown + jsval) \<times> UPSAuthManager" where
  "complete_call cfg env cs =
     (case cs of
        (Cached tok, s) \<Rightarrow> (Inr tok, s)
      | (Threw e, s) \<Rightarrow> (Inl (OtherFailure e), s)
      | (Joined p, s) \<Rightarrow> apfst (map_sum Classified id) (await_refresh cfg env p s)
      | (Started p, s) \<Rightarrow> apfst (map_sum Classified id) (await_refresh cfg env p s))"

definition getAccessToken ::
  "UPSConfig \<Rightarrow> environment \<Rightarrow> int \<Rightarrow> UPSAuthManager \<Rightarrow> (thrown + jsval) \<times> UPSAuthManager" where
  "getAccessToken cfg env now s = complete_call cfg env (getAccessToken_enter cfg now s)"

definition forceRefresh ::
  "UPSConfig \<Rightarrow> environment \<Rightarrow> int \<Rightarrow> UPSAuthManager \<Rightarrow> (thrown + jsval) \<times> UPSAuthManager" where
  "forceRefresh cfg env now s = complete_call cfg env (forceRefresh_enter cfg now s)"

definition validateRequest :: "environment \<Rightarrow> RateRequest \<Rightarrow> CarrierServiceError + RateRequest" where
  "validateRequest env request =
     (case zodParse env request of
        Inl issues \<Rightarrow> Inl (ValidationError ''Invalid rate request'' issues (Some ''UPS''))
      | Inr validated \<Rightarrow> Inr validated)"

definition svc_handleAxiosError :: "UPSConfig \<Rightarrow> AxiosError \<Rightarrow> string \<Rightarrow> CarrierServiceError" where
  "svc_handleAxiosError cfg e requestId =
     (if ax_code e = Some ''ECONNABORTED'' \<or> ax_code e = Some ''ETIMEDOUT'' then
        TimeoutError ''Request timed out'' (timeoutMs cfg) (Some (carrierId cfg)) (Some requestId)
      else if ax_code e = Some ''ENOTFOUND'' \<or> ax_code e = Some ''ECONNREFUSED''
              \<or> ax_code e = Some ''ECONNRESET'' then
        NetworkError ''Could not connect to API'' (Some (carrierId cfg))
      else case ax_response e of
        Some r \<Rightarrow>
          if status r = 429 then
            RateLimitError (carrierId cfg)
              (case map_of (headers r) ''retry-after'' of
                 Some h \<Rightarrow> if h \<noteq> [] then Some (js_parseInt h) else None
               | None \<Rightarrow> None)
              (Some requestId)
          else
            CarrierApiError (''API error '' @ int_to_string (status r)) (status r)
              (Some (carrierId cfg)) (Some requestId)
      | None \<Rightarrow> NetworkError ''Network error'' (Some (carrierId cfg)))"

fun instanceof_ResponseParsingError :: "CarrierServiceError \<Rightarrow> bool" where
  "instanceof_ResponseParsingError (ResponseParsingError _ _ _) = True"
| "instanceof_ResponseParsingError _ = False"

text \<open>\<open>response.data?.RateResponse?.RatedShipment\<close>: \<open>undefined\<close> when the body or
  its \<open>RateResponse\<close> is missing.\<close>

definition data_RatedShipment :: "rate_body option \<Rightarrow> RatedShipment_value" where
  "data_RatedShipment d =
     (case d of
        None \<Rightarrow> Absent
      | Some body \<Rightarrow>
          (case body_RateResponse body of
             None \<Rightarrow> Absent
           | Some block \<Rightarrow> block_RatedShipment block))"

text \<open>\<open>callRatingApi\<close> once the POST has settled with \<open>reply\<close>: on a response the
  structural check, which tests the value for truth and then returns the body as it
  is; on a failure the \<open>catch\<close> clause.\<close>

definition callRatingApi_result ::
  "UPSConfig \<Rightarrow> string \<Rightarrow> rate_body option AxiosResponse settled
     \<Rightarrow> CarrierServiceError + rate_body option" where
  "callRatingApi_result cfg requestId reply =
     (let parsingError = ResponseParsingError ''Invalid response structure from UPS Rating API''
                           (Some ''UPS'') (Some requestId);
          unexpected = NetworkError ''Unexpected error calling UPS Rating API'' (Some ''UPS'')
      in case reply of
        Fulfilled resp \<Rightarrow>
          if \<not> value_truthy (data_RatedShipment (data resp)) then Inl parsingError
          else Inr (data resp)
      | Rejected (Classified c) \<Rightarrow>
          if instanceof_ResponseParsingError c then Inl c else Inl unexpected
      | Rejected (AxiosFailure a) \<Rightarrow> Inl (svc_handleAxiosError cfg a requestId)
      | Rejected (OtherFailure _) \<Rightarrow> Inl unexpected)"

definition callRatingApi ::
  "UPSConfig \<Rightarrow> environment \<Rightarrow> UPSRateRequest \<Rightarrow> jsval \<Rightarrow> string \<Rightarrow> service_world
     \<Rightarrow> (CarrierServiceError + rate_body option) \<times> service_world" where
  "callRatingApi cfg env request token requestId w =
     (callRatingApi_result cfg requestId (ratingReply env (length (ratingPosts w))),
      w\<lparr>ratingPosts := ratingPosts w @
           [\<lparr>rp_request = request, rp_bearer = token, rp_transId = requestId\<rparr>]\<rparr>)"

fun isAuthError :: "CarrierServiceError \<Rightarrow> bool" where
  "isAuthError (CarrierApiError _ httpStatus _ _) = (httpStatus = 401 \<or> httpStatus = 403)"
| "isAuthError _ = False"

text \<open>The copy of the validated request that \<open>getRates\<close> hands to the mapper.\<close>

definition simpleRequest :: "RateRequest \<Rightarrow> RateRequest" where
  "simpleRequest validatedRequest =
     \<lparr>origin =
        \<lparr>addressLines = addressLines (origin validatedRequest),
         city = city (origin validatedRequest),
         stateProvinceCode = stateProvinceCode (origin validatedRequest),
         postalCode = postalCode (origin validatedRequest),
         countryCode = countryCode (origin validatedRequest)\<rparr>,
      destination =
        \<lparr>addressLines = addressLines (destination validatedRequest),
         city = city (destination validatedRequest),
         stateProvinceCode = stateProvinceCode (destination validatedRequest),
         postalCode = postalCode (destination validatedRequest),
         countryCode = countryCode (destination validatedRequest)\<rparr>,
      shipper_name = shipper_name validatedRequest,
      packages =
        map (\<lambda>pkg.
              \<lparr>weight = \<lparr>weight_value = weight_value (weight pkg),
                          weight_unit = weight_unit (weight pkg)\<rparr>,
               dimensions =
                 (case dimensions pkg of
                    Some d \<Rightarrow> Some \<lparr>dim_length = dim_length d, dim_width = dim_width d,
                                     dim_height = dim_height d, dim_unit = dim_unit d\<rparr>
                  | None \<Rightarrow> None)\<rparr>)
          (packages validatedRequest),
      serviceLevel = serviceLevel validatedRequest\<rparr>"

text \<open>
  \<open>fromUPSRateResponse\<close> as \<open>getRates\<close> calls it, on the body that
  \<open>callRatingApi\<close> returned: \<open>upsResponse.RateResponse.RatedShipment\<close> is read and
  its \<open>map\<close> method called. Reading through a missing part throws a \<open>TypeError\<close>, and
  so does the call when the value is not an array, since no other value of a JSON body
  has a method of that name.
\<close>

definition fromUPSRateResponse_untyped ::
  "rate_body option \<Rightarrow> string \<Rightarrow> RateRequest \<Rightarrow> thrown + RateResponse" where
  "fromUPSRateResponse_untyped upsResponse requestId originalRequest =
     (case upsResponse of
        None \<Rightarrow> Inl (OtherFailure ''TypeError'')
      | Some body \<Rightarrow>
          (case body_RateResponse body of
             None \<Rightarrow> Inl (OtherFailure ''TypeError'')
           | Some block \<Rightarrow>
               (case block_RatedShipment block of
                  Shipments rated \<Rightarrow>
                    Inr (fromUPSRateResponse
                           \<lparr>Response = block_Response block, UPS_RatedShipment = rated\<rparr>
                           requestId originalRequest)
                | _ \<Rightarrow> Inl (OtherFailure ''TypeError''))))"

text \<open>
  \<open>getRates\<close>. The request id is drawn at random by the code and is a parameter
  here; \<open>now\<close> is the clock when the token is asked for. \<open>forceRefresh()\<close> empties the
  cache first, after which \<open>isTokenValid\<close> does not read the clock. The mapper runs
  outside every \<open>try\<close>: what it throws is what \<open>getRates\<close> throws.
\<close>

definition getRates ::
  "UPSConfig \<Rightarrow> environment \<Rightarrow> (jsnum \<Rightarrow> string) \<Rightarrow> string \<Rightarrow> int \<Rightarrow> RateRequest
     \<Rightarrow> service_world \<Rightarrow> (thrown + RateResponse) \<times> service_world" where
  "getRates cfg env numToString requestId now request w =
     (case validateRequest env request of
        Inl e \<Rightarrow> (Inl (Classified e), w)
      | Inr validatedRequest \<Rightarrow>
          (case getAccessToken cfg env now (authManager w) of
             (Inl e, a1) \<Rightarrow> (Inl e, w\<lparr>authManager := a1\<rparr>)
           | (Inr token, a1) \<Rightarrow>
               (let upsRequest = toUPSRateRequest numToString (simpleRequest validatedRequest)
                                   (accountNumber cfg) None
                in case callRatingApi cfg env upsRequest token requestId
                          (w\<lparr>authManager := a1\<rparr>) of
                     (Inr upsResponse, w1) \<Rightarrow>
                       (fromUPSRateResponse_untyped upsResponse requestId validatedRequest, w1)
                   | (Inl error, w1) \<Rightarrow>
                       if isAuthError error then
                         (case forceRefresh cfg env now (authManager w1) of
                            (Inl e, a2) \<Rightarrow> (Inl e, w1\<lparr>authManager := a2\<rparr>)
                          | (Inr freshToken, a2) \<Rightarrow>
                              (case callRatingApi cfg env upsRequest freshToken requestId
                                      (w1\<lparr>authManager := a2\<rparr>) of
                                 (Inr upsResponse, w2) \<Rightarrow>
                                   (fromUPSRateResponse_untyped upsResponse requestId
                                      validatedRequest, w2)
                               | (Inl e, w2) \<Rightarrow> (Inl (Classified e), w2)))
                       else (Inl (Classified error), w1))))"

section \<open>Notions used in the statements\<close>

text \<open>The guard of \<open>refreshToken\<close> passes: neither the client id nor the secret is
  empty.\<close>

definition credentialsConfigured :: "UPSConfig \<Rightarrow> bool" where
  "credentialsConfigured cfg = (clientId cfg \<noteq> [] \<and> clientSecret cfg \<noteq> [])"

text \<open>Promises are numbered in order of creation: every settled one, and the one in
  the marker, has a number below the next one to be created (so a new promise is
  pending until something settles it).\<close>

definition promises_numbered :: "UPSAuthManager \<Rightarrow> bool" where
  "promises_numbered s =
     (list_all (\<lambda>entry. fst entry < nextPromise s) (settled s)
      \<and> (case tokenRefreshPromise s of Some p \<Rightarrow> p < nextPromise s | None \<Rightarrow> True))"

text \<open>
  The states a manager can be in: the one the constructor leaves, and from a state
  that can be reached the one after a call of \<open>getAccessToken()\<close> or \<open>forceRefresh()\<close>
  has entered, after the reply to a request that was sent and is still unanswered has
  been handled by \<open>refreshToken()\<close>, after a call has run its \<open>finally\<close> block, and
  after \<open>clearCache()\<close>.
\<close>

inductive reachable :: "UPSConfig \<Rightarrow> UPSAuthManager \<Rightarrow> bool" for cfg where
  new: "reachable cfg newAuthManager"
| enter: "reachable cfg s \<Longrightarrow> reachable cfg (snd (getAccessToken_enter cfg now s))"
| force: "reachable cfg s \<Longrightarrow> reachable cfg (snd (forceRefresh_enter cfg now s))"
| reply: "reachable cfg s \<Longrightarrow> p \<in> tp_promise ` set (tokenPosts s)
            \<Longrightarrow> map_of (settled s) p = None
            \<Longrightarrow> reachable cfg (refreshToken_settle cfg now reply p s)"
| resume: "reachable cfg s \<Longrightarrow> reachable cfg (getAccessToken_finally s)"
| clear: "reachable cfg s \<Longrightarrow> reachable cfg (clearCache s)"

text \<open>A date as \<open>new Date\<close> makes them: invalid, or with a time value in range.\<close>

definition date_in_range :: "Date \<Rightarrow> bool" where
  "date_in_range d = (case d of InvalidDate \<Rightarrow> True | TimeValue t \<Rightarrow> isTimeValue t)"

text \<open>The request \<open>refreshToken()\<close> sends for promise \<open>p\<close>.\<close>

definition tokenRequest :: "UPSConfig \<Rightarrow> nat \<Rightarrow> token_post" where
  "tokenRequest cfg p =
     \<lparr>tp_promise = p, tp_url = tokenUrl cfg,
      tp_basic = clientId cfg @ '':'' @ clientSecret cfg\<rparr>"

text \<open>The classes of transport failure the two \<open>handleAxiosError\<close> methods tell
  apart by \<open>error.code\<close>.\<close>

definition isTimeoutCode :: "string option \<Rightarrow> bool" where
  "isTimeoutCode c = (c = Some ''ECONNABORTED'' \<or> c = Some ''ETIMEDOUT'')"

definition auth_isConnectionCode :: "string option \<Rightarrow> bool" where
  "auth_isConnectionCode c = (c = Some ''ENOTFOUND'' \<or> c = Some ''ECONNREFUSED'')"

definition svc_isConnectionCode :: "string option \<Rightarrow> bool" where
  "svc_isConnectionCode c =
     (c = Some ''ENOTFOUND'' \<or> c = Some ''ECONNREFUSED'' \<or> c = Some ''ECONNRESET'')"

text \<open>A reply body without the list of rated shipments: no body, no \<open>RateResponse\<close>
  in it, or a \<open>RatedShipment\<close> in that which is not an array.\<close>

definition lacksRatedShipment :: "rate_body option \<Rightarrow> bool" where
  "lacksRatedShipment d =
     (case data_RatedShipment d of Shipments _ \<Rightarrow> False | _ \<Rightarrow> True)"

text \<open>The wire request \<open>getRates\<close> builds from the validated request.\<close>

definition wireRequest :: "UPSConfig \<Rightarrow> (jsnum \<Rightarrow> string) \<Rightarrow> RateRequest \<Rightarrow> UPSRateRequest" where
  "wireRequest cfg numToString validatedRequest =
     toUPSRateRequest numToString (simpleRequest validatedRequest) (accountNumber cfg) None"

definition parsingError :: "string \<Rightarrow> CarrierServiceError" where
  "parsingError requestId =
     ResponseParsingError ''Invalid response structure from UPS Rating API''
       (Some ''UPS'') (Some requestId)"

text \<open>A decimal numeral with exactly one digit after the point: an optional minus
  sign, at least one digit, the point, one digit.\<close>

definition one_decimal_place :: "string \<Rightarrow> bool" where
  "one_decimal_place s =
     (let u = (if s \<noteq> [] \<and> hd s = CHR ''-'' then tl s else s);
          ip = takeWhile is_digit u;
          r = dropWhile is_digit u
      in ip \<noteq> [] \<and> (case r of [dot, d] \<Rightarrow> dot = CHR ''.'' \<and> is_digit d | _ \<Rightarrow> False))"

text \<open>The integer \<open>toFixed(1)\<close> writes: the one nearest to ten times the magnitude,
  the larger one on a tie.\<close>

definition toFixed_digits :: "rat \<Rightarrow> nat" where
  "toFixed_digits q = nat \<lfloor>\<bar>q\<bar> * 10 + 1 / 2\<rfloor>"

section \<open>Example inputs, after the test suite\<close>

definition testConfig :: UPSConfig where
  "testConfig =
     \<lparr>carrierId = ''UPS'', carrierName = ''United Parcel Service'',
      clientId = ''test-client-id'', clientSecret = ''test-client-secret'',
      accountNumber = ''test-account-123'', baseUrl = ''https://onlinetools.ups.com'',
      tokenUrl = ''https://onlinetools.ups.com/security/v1/oauth/token'',
      timeoutMs = 30000, supportedCountries = [''US'', ''CA'', ''MX'']\<rparr>"

definition noCredsConfig :: UPSConfig where
  "noCredsConfig = testConfig\<lparr>clientId := [], clientSecret := []\<rparr>"

definition tokenResponse :: "string \<Rightarrow> int \<Rightarrow> jsval" where
  "tokenResponse token seconds =
     Object [(''access_token'', String token), (''token_type'', String ''Bearer''),
             (''expires_in'', Number (Fin (of_int seconds))),
             (''issued_at'', String ''2024-01-15T10:00:00Z''), (''status'', String ''approved'')]"

definition successfulTokenResponse :: jsval where
  "successfulTokenResponse = tokenResponse ''test-access-token'' 14400"

definition tokenOk :: "jsval AxiosResponse settled" where
  "tokenOk = Fulfilled \<lparr>status = 200, headers = [], data = successfulTokenResponse\<rparr>"

definition httpError :: "int \<Rightarrow> (string \<times> string) list \<Rightarrow> thrown" where
  "httpError st hs =
     AxiosFailure \<lparr>ax_code = Some (if st < 500 then ''ERR_BAD_REQUEST'' else ''ERR_BAD_RESPONSE''),
                   ax_response = Some \<lparr>status = st, headers = hs, data = Undefined\<rparr>\<rparr>"

text \<open>A manager that holds a credential: a new one whose first call, made at time
  \<open>0\<close>, has been answered at time \<open>1000\<close> with a token good for four hours.\<close>

definition cachedManager :: UPSAuthManager where
  "cachedManager =
     refresh_settles testConfig 1000 tokenOk 0
       (snd (getAccessToken_enter testConfig 0 newAuthManager))"

definition validRateRequest :: RateRequest where
  "validRateRequest =
     \<lparr>origin = \<lparr>addressLines = [''123 Sender Street''], city = ''New York'',
                stateProvinceCode = ''NY'', postalCode = ''10001'', countryCode = ''US''\<rparr>,
      destination = \<lparr>addressLines = [''456 Receiver Avenue''], city = ''Los Angeles'',
                     stateProvinceCode = ''CA'', postalCode = ''90001'', countryCode = ''US''\<rparr>,
      shipper_name = ''Test Shipper'',
      packages = [\<lparr>weight = \<lparr>weight_value = Fin (11 / 2), weight_unit = LB\<rparr>,
                   dimensions = Some \<lparr>dim_length = Fin 12, dim_width = Fin 8,
                                      dim_height = Fin 6, dim_unit = IN\<rparr>\<rparr>],
      serviceLevel = None\<rparr>"

text \<open>A stand-in for \<open>Number::toString\<close> in the examples, right on the special
  values and on integers below \<open>10^21\<close> in magnitude.\<close>

definition integerToString :: "jsnum \<Rightarrow> string" where
  "integerToString x =
     (case x of
        NaN \<Rightarrow> ''NaN''
      | PosInfinity \<Rightarrow> ''Infinity''
      | NegInfinity \<Rightarrow> ''-Infinity''
      | Fin q \<Rightarrow> if q = of_int \<lfloor>q\<rfloor> then int_to_string \<lfloor>q\<rfloor> else ''?'')"

definition refreshedTokenOk :: "jsval AxiosResponse settled" where
  "refreshedTokenOk =
     Fulfilled \<lparr>status = 200, headers = [], data = tokenResponse ''refreshed-token'' 14400\<rparr>"

definition groundShipment :: UPSRatedShipment where
  "groundShipment =
     \<lparr>Service_Code = ''03'', Service_Description = Some ''UPS Ground'',
      BillingWeight = Some \<lparr>BillingWeight_UnitCode = ''LBS'', BillingWeight_Weight = ''5.5''\<rparr>,
      TransportationCharges = Some \<lparr>CurrencyCode = ''USD'', MonetaryValue = ''12.50''\<rparr>,
      ServiceOptionsCharges = Some \<lparr>CurrencyCode = ''USD'', MonetaryValue = ''0.00''\<rparr>,
      TotalCharges = \<lparr>CurrencyCode = ''USD'', MonetaryValue = ''12.50''\<rparr>,
      GuaranteedDelivery = Some (Some ''5''),
      RatedShipmentAlert = None\<rparr>"

definition rateOk :: "rate_body option AxiosResponse settled" where
  "rateOk =
     Fulfilled \<lparr>status = 200, headers = [],
       data = Some \<lparr>body_RateResponse =
         Some \<lparr>block_Response = Some \<lparr>rs_Code = ''1'', rs_Description = ''Success''\<rparr>,
               block_RatedShipment = Shipments [groundShipment]\<rparr>\<rparr>\<rparr>"

definition rateMissingShipments :: "rate_body option AxiosResponse" where
  "rateMissingShipments =
     \<lparr>status = 200, headers = [],
      data = Some \<lparr>body_RateResponse =
        Some \<lparr>block_Response = Some \<lparr>rs_Code = ''1'', rs_Description = ''Success''\<rparr>,
              block_RatedShipment = Absent\<rparr>\<rparr>\<rparr>"

text \<open>A reply whose \<open>RatedShipment\<close> is one rated shipment, not an array of them.\<close>

definition rateSingleShipment :: "rate_body option AxiosResponse" where
  "rateSingleShipment =
     \<lparr>status = 200, headers = [],
      data = Some \<lparr>body_RateResponse =
        Some \<lparr>block_Response = Some \<lparr>rs_Code = ''1'', rs_Description = ''Success''\<rparr>,
              block_RatedShipment =
                ObjectValue
                  [(''Service'', Object [(''Code'', String ''03''),
                                          (''Description'', String ''UPS Ground'')]),
                   (''TotalCharges'', Object [(''CurrencyCode'', String ''USD''),
                                               (''MonetaryValue'', String ''12.50'')])]\<rparr>\<rparr>\<rparr>"

text \<open>The scenarios of the integration tests: the token endpoint answers the first
  refresh with one token and every later one with another; the rating endpoint answers
  as listed, the last reply repeated.\<close>

definition scenario :: "rate_body option AxiosResponse settled list \<Rightarrow> environment" where
  "scenario replies =
     \<lparr>zodParse = Inr,
      tokenReply = (\<lambda>p. (1000, if p = 0 then tokenOk else refreshedTokenOk)),
      ratingReply = (\<lambda>k. if k < length replies then replies ! k else last replies)\<rparr>"

definition newService :: service_world where
  "newService = \<lparr>authManager = newAuthManager, ratingPosts = []\<rparr>"

text \<open>A "too many requests" response whose \<open>Retry-After\<close> header is an HTTP date.\<close>

definition retryAfterDate :: thrown where
  "retryAfterDate = httpError 429 [(''retry-after'', ''Wed, 21 Oct 2015 07:28:00 GMT'')]"

text \<open>A rated shipment whose transit days are a blank string.\<close>

definition blankTransitDays :: UPSRatedShipment where
  "blankTransitDays = groundShipment\<lparr>GuaranteedDelivery := Some (Some '' '')\<rparr>"

definition connectionReset :: AxiosError where
  "connectionReset = \<lparr>ax_code = Some ''ECONNRESET'', ax_response = None\<rparr>"

definition timedOut :: AxiosError where
  "timedOut = \<lparr>ax_code = Some ''ECONNABORTED'', ax_response = None\<rparr>"

definition connectionRefused :: AxiosError where
  "connectionRefused = \<lparr>ax_code = Some ''ECONNREFUSED'', ax_response = None\<rparr>"

section \<open>Integers are doubles; dates stay in range\<close>







lemma new_Date_in_range: "date_in_range (new_Date x)"
proof (cases x)
  case (Fin q)
  show ?thesis
  proof (cases "8640000000000000 < \<bar>q\<bar>")
    case True
    then show ?thesis by (simp add: Fin new_Date_def date_in_range_def)
  next
    case False
    then have b: "- 8640000000000000 \<le> q" "q \<le> 8640000000000000" by linarith+
    have f: "\<lfloor>q\<rfloor> \<le> 8640000000000000" "- 8640000000000000 \<le> \<lfloor>q\<rfloor>"
      "\<lceil>q\<rceil> \<le> 8640000000000000" "- 8640000000000000 \<le> \<lceil>q\<rceil>"
      using b by (simp_all add: floor_le_iff le_floor_iff ceiling_le_iff le_ceiling_iff)
    have tv: "isTimeValue \<lfloor>q\<rfloor>" "isTimeValue \<lceil>q\<rceil>"
      unfolding isTimeValue_def abs_le_iff using f by linarith+
    show ?thesis
      using False tv by (simp add: Fin new_Date_def date_in_range_def)
  qed
qed (simp_all add: new_Date_def date_in_range_def)


section \<open>Validity of the cached credential\<close>

lemma reachable_invariant:
  assumes "reachable cfg s"
  shows "(tokenPosts s \<noteq> [] \<longrightarrow> credentialsConfigured cfg)
       \<and> (\<forall>t. cachedToken s = Some t \<longrightarrow>
              credentialsConfigured cfg \<and> date_in_range (expiresAt t))"
  using assms
proof (induction rule: reachable.induct)
  case new
  show ?case by (simp add: newAuthManager_def)
next
  case (enter s now)
  then show ?case
    by (auto simp: getAccessToken_enter_def refreshToken_begin_def Let_def
        credentialsConfigured_def split: option.splits)
next
  case (force s now)
  then show ?case
    by (auto simp: forceRefresh_enter_def getAccessToken_enter_def refreshToken_begin_def
        isTokenValid_def Let_def credentialsConfigured_def split: option.splits)
next
  case (reply s p now reply)
  then have "tokenPosts s \<noteq> []" by auto
  with reply.IH have "credentialsConfigured cfg" by simp
  then show ?case
    using reply.IH
    by (auto simp: refreshToken_settle_def new_Date_in_range split: sum.splits)
next
  case (resume s)
  then show ?case by (simp add: getAccessToken_finally_def)
next
  case (clear s)
  then show ?case by (simp add: clearCache_def)
qed

text \<open>A manager holds a credential only when its client id and secret are configured,
  and the expiry of the credential is a date in range or the invalid date.\<close>

lemma credential_needs_configuration:
  "reachable cfg s \<Longrightarrow> cachedToken s = Some t \<Longrightarrow>
     credentialsConfigured cfg \<and> date_in_range (expiresAt t)"
  using reachable_invariant by blast



lemma refreshToken_begin_fst: "fst (refreshToken_begin cfg s) = nextPromise s"
  by (simp add: refreshToken_begin_def Let_def)





lemma reachable_cachedManager: "reachable testConfig cachedManager"
proof -
  let ?s1 = "snd (getAccessToken_enter testConfig 0 newAuthManager)"
  have c: "clientId testConfig \<noteq> []" "clientSecret testConfig \<noteq> []"
    by (simp_all add: testConfig_def)
  have s1: "tokenPosts ?s1 = [tokenRequest testConfig 0]" "settled ?s1 = []"
    by (simp_all add: getAccessToken_enter_def refreshToken_begin_def isTokenValid_def
        newAuthManager_def tokenRequest_def c Let_def)
  have "reachable testConfig ?s1"
    by (intro reachable.enter reachable.new)
  then have "reachable testConfig (refreshToken_settle testConfig 1000 tokenOk 0 ?s1)"
    by (rule reachable.reply) (simp_all add: s1 tokenRequest_def)
  then show ?thesis
    unfolding cachedManager_def refresh_settles_def by (rule reachable.resume)
qed


section \<open>Concurrent callers share one refresh\<close>

lemma refreshToken_begin_cached [simp]:
  "cachedToken (snd (refreshToken_begin cfg s)) = cachedToken s"
  by (simp add: refreshToken_begin_def Let_def)

lemma refreshToken_begin_marker [simp]:
  "tokenRefreshPromise (snd (refreshToken_begin cfg s)) = tokenRefreshPromise s"
  by (simp add: refreshToken_begin_def Let_def)

lemma refreshToken_begin_next [simp]:
  "nextPromise (snd (refreshToken_begin cfg s)) = nextPromise s + 1"
  by (simp add: refreshToken_begin_def Let_def)

lemma refreshToken_begin_posts:
  "tokenPosts (snd (refreshToken_begin cfg s)) =
     (if clientId cfg = [] \<or> clientSecret cfg = [] then tokenPosts s
      else tokenPosts s @ [\<lparr>tp_promise = nextPromise s, tp_url = tokenUrl cfg,
                            tp_basic = clientId cfg @ '':'' @ clientSecret cfg\<rparr>])"
  by (simp add: refreshToken_begin_def Let_def)

lemma refreshToken_begin_settled:
  "settled (snd (refreshToken_begin cfg s)) =
     (if clientId cfg = [] \<or> clientSecret cfg = []
      then (nextPromise s, Inl (InvalidCredentialsError ''UPS'')) # settled s
      else settled s)"
  by (simp add: refreshToken_begin_def Let_def)

lemma isTokenValid_cong:
  "cachedToken s' = cachedToken s \<Longrightarrow> isTokenValid now s' = isTokenValid now s"
  by (simp add: isTokenValid_def)

lemma enter_start:
  assumes "\<not> isTokenValid now s" and "tokenRefreshPromise s = None"
  shows "getAccessToken_enter cfg now s =
           (Started (nextPromise s),
            (snd (refreshToken_begin cfg s))\<lparr>tokenRefreshPromise := Some (nextPromise s)\<rparr>)"
  using assms refreshToken_begin_fst [of cfg s]
  by (simp add: getAccessToken_enter_def split_beta)

lemma enter_join:
  assumes "\<not> isTokenValid now s" and "tokenRefreshPromise s = Some p"
  shows "getAccessToken_enter cfg now s = (Joined p, s)"
  using assms by (simp add: getAccessToken_enter_def)

lemma concurrent_join:
  assumes "tokenRefreshPromise s = Some p" and "\<forall>t \<in> set later. \<not> isTokenValid t s"
  shows "concurrent_calls cfg later s = (replicate (length later) (Joined p), s)"
  using assms by (induction later) (simp_all add: enter_join)

lemma concurrent_start:
  assumes "tokenRefreshPromise s = None" and "\<forall>t \<in> set (now # later). \<not> isTokenValid t s"
  shows "concurrent_calls cfg (now # later) s =
           (Started (nextPromise s) # replicate (length later) (Joined (nextPromise s)),
            (snd (refreshToken_begin cfg s))\<lparr>tokenRefreshPromise := Some (nextPromise s)\<rparr>)"
proof -
  let ?s1 = "(snd (refreshToken_begin cfg s))\<lparr>tokenRefreshPromise := Some (nextPromise s)\<rparr>"
  have e: "getAccessToken_enter cfg now s = (Started (nextPromise s), ?s1)"
    using assms by (simp add: enter_start)
  have "\<forall>t \<in> set later. \<not> isTokenValid t ?s1"
    using assms(2) by (simp add: isTokenValid_def)
  then have "concurrent_calls cfg later ?s1 = (replicate (length later) (Joined (nextPromise s)), ?s1)"
    by (intro concurrent_join) simp_all
  with e show ?thesis by simp
qed


lemma refresh_settles_marker [simp]:
  "tokenRefreshPromise (refresh_settles cfg t reply p s) = None"
  by (simp add: refresh_settles_def getAccessToken_finally_def)

lemma refresh_settles_posts [simp]:
  "tokenPosts (refresh_settles cfg t reply p s) = tokenPosts s"
  by (simp add: refresh_settles_def getAccessToken_finally_def refreshToken_settle_def
      split: sum.split)

lemma refresh_settles_next [simp]:
  "nextPromise (refresh_settles cfg t reply p s) = nextPromise s"
  by (simp add: refresh_settles_def getAccessToken_finally_def refreshToken_settle_def
      split: sum.split)

lemma refresh_settles_outcome:
  "map_of (settled (refresh_settles cfg t reply p s)) p =
     Some (map_sum id access_token (refreshToken_result cfg reply))"
  by (simp add: refresh_settles_def getAccessToken_finally_def refreshToken_settle_def
      split: sum.split)

lemma refresh_settles_cached:
  "cachedToken (refresh_settles cfg t reply p s) =
     (case refreshToken_result cfg reply of
        Inr tokenData \<Rightarrow>
          Some \<lparr>accessToken = access_token tokenData,
                expiresAt = new_Date (js_add (Fin (of_int t))
                              (js_mul (js_ToNumber (expires_in tokenData)) (Fin 1000))),
                tokenType = token_type tokenData\<rparr>
      | Inl e \<Rightarrow> cachedToken s)"
  by (simp add: refresh_settles_def getAccessToken_finally_def refreshToken_settle_def
      split: sum.split)

lemma call_outcome_waiting:
  "c \<in> set (Started p # replicate n (Joined p)) \<Longrightarrow> call_outcome s c = map_of (settled s) p"
  by (auto simp: call_outcome_def)

text \<open>
  C1 (as amended). Let \<open>n \<ge> 1\<close> calls of \<open>getAccessToken()\<close> enter while no valid
  credential is cached and no refresh is in flight. The first starts a refresh and
  every other one waits on the same promise. One POST goes to the token endpoint when
  the client id and the secret are both configured, none when either is missing. Once
  the refresh settles the marker is empty and every caller has received the same
  outcome: the token, or the same error. After a failure the next call starts a new
  attempt, with a promise of its own (and a request of its own when the credentials
  are configured).
\<close>

theorem C1_concurrent_calls_share_one_refresh:
  assumes idle: "tokenRefreshPromise s = None"
      and stale: "\<forall>t \<in> set (now # later). \<not> isTokenValid t s"
      and run: "concurrent_calls cfg (now # later) s = (cs, s1)"
  shows "cs = Started (nextPromise s) # replicate (length later) (Joined (nextPromise s))
       \<and> length (tokenPosts s1) =
           length (tokenPosts s) + (if credentialsConfigured cfg then 1 else 0)
       \<and> (credentialsConfigured cfg \<longrightarrow>
            (\<forall>t reply.
               tokenRefreshPromise (refresh_settles cfg t reply (nextPromise s) s1) = None
               \<and> tokenPosts (refresh_settles cfg t reply (nextPromise s) s1) = tokenPosts s1
               \<and> (\<forall>c \<in> set cs.
                     call_outcome (refresh_settles cfg t reply (nextPromise s) s1) c =
                       Some (map_sum id access_token (refreshToken_result cfg reply)))
               \<and> (\<forall>e t'. refreshToken_result cfg reply = Inl e \<longrightarrow> \<not> isTokenValid t' s \<longrightarrow>
                     fst (getAccessToken_enter cfg t'
                            (refresh_settles cfg t reply (nextPromise s) s1))
                       = Started (nextPromise s + 1)
                     \<and> length (tokenPosts (snd (getAccessToken_enter cfg t'
                            (refresh_settles cfg t reply (nextPromise s) s1))))
                       = length (tokenPosts s1) + 1)))
       \<and> (\<not> credentialsConfigured cfg \<longrightarrow>
            tokenRefreshPromise (getAccessToken_finally s1) = None
            \<and> (\<forall>c \<in> set cs.
                  call_outcome (getAccessToken_finally s1) c =
                    Some (Inl (InvalidCredentialsError ''UPS'')))
            \<and> (\<forall>t'. \<not> isTokenValid t' s \<longrightarrow>
                  fst (getAccessToken_enter cfg t' (getAccessToken_finally s1))
                    = Started (nextPromise s + 1)))"
proof -
  let ?p = "nextPromise s"
  let ?s1 = "(snd (refreshToken_begin cfg s))\<lparr>tokenRefreshPromise := Some ?p\<rparr>"
  have both: "cs = Started ?p # replicate (length later) (Joined ?p)" "s1 = ?s1"
    using concurrent_start [OF idle stale, of cfg] run by simp_all
  have posts: "length (tokenPosts s1) =
      length (tokenPosts s) + (if credentialsConfigured cfg then 1 else 0)"
    by (simp add: both refreshToken_begin_posts credentialsConfigured_def)
  have cached1: "cachedToken s1 = cachedToken s" and next1: "nextPromise s1 = ?p + 1"
    by (simp_all add: both)
  have settled_case: "tokenRefreshPromise (refresh_settles cfg t reply ?p s1) = None
      \<and> tokenPosts (refresh_settles cfg t reply ?p s1) = tokenPosts s1
      \<and> (\<forall>c \<in> set cs. call_outcome (refresh_settles cfg t reply ?p s1) c =
             Some (map_sum id access_token (refreshToken_result cfg reply)))
      \<and> (\<forall>e t'. refreshToken_result cfg reply = Inl e \<longrightarrow> \<not> isTokenValid t' s \<longrightarrow>
             fst (getAccessToken_enter cfg t' (refresh_settles cfg t reply ?p s1))
               = Started (?p + 1)
             \<and> length (tokenPosts (snd (getAccessToken_enter cfg t'
                    (refresh_settles cfg t reply ?p s1)))) = length (tokenPosts s1) + 1)"
    if conf: "credentialsConfigured cfg" for t reply
  proof -
    let ?s2 = "refresh_settles cfg t reply ?p s1"
    have out: "\<forall>c \<in> set cs. call_outcome ?s2 c =
        Some (map_sum id access_token (refreshToken_result cfg reply))"
      using call_outcome_waiting [of _ ?p "length later" ?s2]
      by (simp add: both(1) refresh_settles_outcome del: set_simps)
    have again: "fst (getAccessToken_enter cfg t' ?s2) = Started (?p + 1)
        \<and> length (tokenPosts (snd (getAccessToken_enter cfg t' ?s2))) = length (tokenPosts s1) + 1"
      if fail: "refreshToken_result cfg reply = Inl e" and st: "\<not> isTokenValid t' s" for e t'
    proof -
      have "cachedToken ?s2 = cachedToken s"
        by (simp add: refresh_settles_cached fail cached1)
      then have "\<not> isTokenValid t' ?s2"
        using st by (simp add: isTokenValid_def)
      then have "getAccessToken_enter cfg t' ?s2 =
          (Started (nextPromise ?s2),
           (snd (refreshToken_begin cfg ?s2))\<lparr>tokenRefreshPromise := Some (nextPromise ?s2)\<rparr>)"
        by (rule enter_start) simp
      then show ?thesis
        using conf by (simp add: next1 refreshToken_begin_posts credentialsConfigured_def)
    qed
    show ?thesis using out again by simp
  qed
  have rejected_case: "tokenRefreshPromise (getAccessToken_finally s1) = None
      \<and> (\<forall>c \<in> set cs. call_outcome (getAccessToken_finally s1) c =
             Some (Inl (InvalidCredentialsError ''UPS'')))
      \<and> (\<forall>t'. \<not> isTokenValid t' s \<longrightarrow>
             fst (getAccessToken_enter cfg t' (getAccessToken_finally s1)) = Started (?p + 1))"
    if missing: "\<not> credentialsConfigured cfg"
  proof -
    let ?s2 = "getAccessToken_finally s1"
    have m: "map_of (settled ?s2) ?p = Some (Inl (InvalidCredentialsError ''UPS''))"
      using missing
      by (auto simp: both(2) getAccessToken_finally_def refreshToken_begin_settled
          credentialsConfigured_def)
    have out: "\<forall>c \<in> set cs. call_outcome ?s2 c = Some (Inl (InvalidCredentialsError ''UPS''))"
      using call_outcome_waiting [of _ ?p "length later" ?s2] m
      by (simp add: both(1) del: set_simps)
    have again: "fst (getAccessToken_enter cfg t' ?s2) = Started (?p + 1)"
      if st: "\<not> isTokenValid t' s" for t'
    proof -
      have "\<not> isTokenValid t' ?s2"
        using st cached1 by (simp add: isTokenValid_def getAccessToken_finally_def)
      then have "getAccessToken_enter cfg t' ?s2 =
          (Started (nextPromise ?s2),
           (snd (refreshToken_begin cfg ?s2))\<lparr>tokenRefreshPromise := Some (nextPromise ?s2)\<rparr>)"
        by (rule enter_start) (simp add: getAccessToken_finally_def)
      then show ?thesis by (simp add: getAccessToken_finally_def next1)
    qed
    show ?thesis using out again by (simp add: getAccessToken_finally_def)
  qed
  show ?thesis
    using both(1) posts settled_case rejected_case by blast
qed

theorem C1_concurrent_calls_witness:
  "fst (concurrent_calls testConfig [0, 0, 0] newAuthManager) = [Started 0, Joined 0, Joined 0]
   \<and> length (tokenPosts (snd (concurrent_calls testConfig [0, 0, 0] newAuthManager))) = 1
   \<and> call_outcome
         (refresh_settles testConfig 1000 tokenOk 0
            (snd (concurrent_calls testConfig [0, 0, 0] newAuthManager)))
         (Joined 0) = Some (Inr (String ''test-access-token''))
   \<and> tokenRefreshPromise
         (refresh_settles testConfig 1000 tokenOk 0
            (snd (concurrent_calls testConfig [0, 0, 0] newAuthManager))) = None"
proof -
  define cs where "cs = fst (concurrent_calls testConfig [0, 0, 0] newAuthManager)"
  define s1 where "s1 = snd (concurrent_calls testConfig [0, 0, 0] newAuthManager)"
  have idle: "tokenRefreshPromise newAuthManager = None"
    by (simp add: newAuthManager_def)
  have stale: "\<forall>t \<in> set [0, 0, 0]. \<not> isTokenValid t newAuthManager"
    by (simp add: isTokenValid_def newAuthManager_def)
  have run: "concurrent_calls testConfig [0, 0, 0] newAuthManager = (cs, s1)"
    by (simp add: cs_def s1_def del: concurrent_calls.simps)
  have conf: "credentialsConfigured testConfig"
    by (simp add: credentialsConfigured_def testConfig_def)
  have ok: "refreshToken_result testConfig tokenOk = Inr successfulTokenResponse"
    "access_token successfulTokenResponse = String ''test-access-token''"
    by (simp_all add: refreshToken_result_def tokenOk_def successfulTokenResponse_def
        tokenResponse_def access_token_def field_def)
  have n: "nextPromise newAuthManager = 0" "tokenPosts newAuthManager = []"
    by (simp_all add: newAuthManager_def)
  note th = C1_concurrent_calls_share_one_refresh [OF idle stale run]
  have 1: "cs = [Started 0, Joined 0, Joined 0]"
    using th by (simp add: n)
  have 2: "length (tokenPosts s1) = 1"
    using th conf by (simp add: n)
  have 3: "\<forall>c \<in> set cs. call_outcome (refresh_settles testConfig 1000 tokenOk 0 s1) c
             = Some (map_sum id access_token (refreshToken_result testConfig tokenOk))"
    using th conf unfolding n by blast
  have 4: "call_outcome (refresh_settles testConfig 1000 tokenOk 0 s1) (Joined 0)
             = Some (Inr (String ''test-access-token''))"
    using 3 by (simp add: 1 ok)
  have 5: "tokenRefreshPromise (refresh_settles testConfig 1000 tokenOk 0 s1) = None"
    using th conf unfolding n by blast
  show ?thesis
    using 1 2 4 5 unfolding cs_def s1_def by blast
qed

text \<open>The claim as stated fails where the credentials are missing: three concurrent
  calls on a new manager send no request at all.\<close>

theorem C1_no_request_without_credentials:
  "tokenRefreshPromise newAuthManager = None
   \<and> \<not> isTokenValid 0 newAuthManager
   \<and> tokenPosts (snd (concurrent_calls noCredsConfig [0, 0, 0] newAuthManager)) = []"
  by (simp add: newAuthManager_def isTokenValid_def noCredsConfig_def testConfig_def
      getAccessToken_enter_def refreshToken_begin_def Let_def)

section \<open>Forced refresh and the classification of refresh failures\<close>






lemma promises_numbered_new: "promises_numbered newAuthManager"
  by (simp add: promises_numbered_def newAuthManager_def)

lemma promises_numbered_enter:
  assumes "promises_numbered s"
  shows "promises_numbered (snd (getAccessToken_enter cfg now s))"
  using assms
  by (auto simp: promises_numbered_def getAccessToken_enter_def refreshToken_begin_def
      Let_def list_all_iff split: option.splits)

lemma promises_numbered_settles:
  assumes "promises_numbered s" and "p < nextPromise s"
  shows "promises_numbered (refresh_settles cfg t reply p s)"
  using assms
  by (auto simp: promises_numbered_def refresh_settles_def refreshToken_settle_def
      getAccessToken_finally_def list_all_iff split: sum.splits)

lemma promises_numbered_await:
  assumes "promises_numbered s" and "p < nextPromise s"
  shows "promises_numbered (snd (await_refresh cfg env p s))"
proof (cases "map_of (settled s) p")
  case None
  then show ?thesis
    using promises_numbered_settles [OF assms]
    by (simp add: await_refresh_def split_beta)
next
  case (Some r)
  then show ?thesis
    using assms(1)
    by (simp add: await_refresh_def promises_numbered_def getAccessToken_finally_def)
qed

lemma enter_promise_below:
  assumes "promises_numbered s"
  shows "case fst (getAccessToken_enter cfg now s) of
           Started p \<Rightarrow> p < nextPromise (snd (getAccessToken_enter cfg now s))
         | Joined p \<Rightarrow> p < nextPromise (snd (getAccessToken_enter cfg now s))
         | _ \<Rightarrow> True"
  using assms
  by (auto simp: promises_numbered_def getAccessToken_enter_def refreshToken_begin_def
      Let_def split: option.splits)

lemma promises_numbered_complete:
  assumes "promises_numbered s"
  shows "promises_numbered (snd (complete_call cfg env (getAccessToken_enter cfg now s)))"
proof -
  obtain c s1 where e: "getAccessToken_enter cfg now s = (c, s1)"
    by (cases "getAccessToken_enter cfg now s")
  have n: "promises_numbered s1"
    using promises_numbered_enter [OF assms, of cfg now] e by simp
  show ?thesis
    using enter_promise_below [OF assms, of cfg now] n promises_numbered_await [of s1]
    by (cases c) (simp_all add: e complete_call_def)
qed

text \<open>The numbering holds for a new manager and is kept by \<open>getAccessToken()\<close> and
  \<open>forceRefresh()\<close>.\<close>

lemma promises_numbered_getAccessToken:
  "promises_numbered s \<Longrightarrow> promises_numbered (snd (getAccessToken cfg env now s))"
  unfolding getAccessToken_def by (rule promises_numbered_complete)

lemma promises_numbered_forceRefresh:
  assumes "promises_numbered s"
  shows "promises_numbered (snd (forceRefresh cfg env now s))"
proof -
  have "promises_numbered (s\<lparr>cachedToken := None\<rparr>)"
    using assms by (simp add: promises_numbered_def split: option.splits)
  then show ?thesis
    unfolding forceRefresh_def forceRefresh_enter_def by (rule promises_numbered_complete)
qed






text \<open>
  C5 (as amended). A refresh attempt with a missing client id or secret is rejected at
  once with "invalid credentials" and sends nothing. A failure of the request is
  classified by the error code first: a timeout code gives a retryable "timeout", a
  connection-refused or DNS code a retryable "network error". Otherwise an HTTP 401 or
  403 gives "invalid credentials" (not retryable), any other HTTP status an
  "authentication error" carrying the status, and a transport error with no response
  at all a retryable "network error". Any failure that is not a transport error and
  not already an authentication-class error, a response without a body included, is
  wrapped as an "authentication error".
\<close>

theorem C5_refresh_failure_classification:
  "(\<not> credentialsConfigured cfg \<longrightarrow>
      map_of (settled (snd (refreshToken_begin cfg s))) (fst (refreshToken_begin cfg s))
        = Some (Inl (InvalidCredentialsError ''UPS''))
      \<and> tokenPosts (snd (refreshToken_begin cfg s)) = tokenPosts s)
   \<and> (isTimeoutCode (ax_code e) \<longrightarrow>
        refreshToken_result cfg (Rejected (AxiosFailure e)) =
          Inl (TimeoutError ''Token request timed out'' (timeoutMs cfg) (Some ''UPS'') None)
        \<and> isRetryable (TimeoutError ''Token request timed out'' (timeoutMs cfg) (Some ''UPS'') None))
   \<and> (\<not> isTimeoutCode (ax_code e) \<and> auth_isConnectionCode (ax_code e) \<longrightarrow>
        refreshToken_result cfg (Rejected (AxiosFailure e)) =
          Inl (NetworkError ''Failed to connect to UPS authentication server'' (Some ''UPS''))
        \<and> isRetryable (NetworkError ''Failed to connect to UPS authentication server'' (Some ''UPS'')))
   \<and> (\<forall>r. \<not> isTimeoutCode (ax_code e) \<and> \<not> auth_isConnectionCode (ax_code e)
          \<and> ax_response e = Some r \<longrightarrow>
        refreshToken_result cfg (Rejected (AxiosFailure e)) =
          (if status r = 401 \<or> status r = 403 then Inl (InvalidCredentialsError ''UPS'')
           else Inl (AuthenticationError
                       (''UPS authentication failed with status '' @ int_to_string (status r))
                       (Some ''UPS'') (Some (status r))))
        \<and> \<not> isRetryable (InvalidCredentialsError ''UPS''))
   \<and> (\<not> isTimeoutCode (ax_code e) \<and> \<not> auth_isConnectionCode (ax_code e)
          \<and> ax_response e = None \<longrightarrow>
        refreshToken_result cfg (Rejected (AxiosFailure e)) =
          Inl (NetworkError ''Network error during UPS authentication'' (Some ''UPS''))
        \<and> isRetryable (NetworkError ''Network error during UPS authentication'' (Some ''UPS'')))
   \<and> refreshToken_result cfg (Fulfilled \<lparr>status = st, headers = hs, data = Undefined\<rparr>) =
        Inl (AuthenticationError ''Failed to obtain UPS access token'' (Some ''UPS'') None)
   \<and> refreshToken_result cfg (Fulfilled \<lparr>status = st, headers = hs, data = Null\<rparr>) =
        Inl (AuthenticationError ''Failed to obtain UPS access token'' (Some ''UPS'') None)
   \<and> refreshToken_result cfg (Rejected (OtherFailure x)) =
        Inl (AuthenticationError ''Failed to obtain UPS access token'' (Some ''UPS'') None)
   \<and> refreshToken_result cfg (Rejected (Classified c)) =
        (if instanceof_AuthenticationError c then Inl c
         else Inl (AuthenticationError ''Failed to obtain UPS access token'' (Some ''UPS'') None))"
  by (auto simp: refreshToken_result_def refreshToken_catch_def auth_handleAxiosError_def
      isTimeoutCode_def auth_isConnectionCode_def refreshToken_begin_def Let_def
      credentialsConfigured_def)



theorem C5_refresh_failure_witness:
  "refreshToken_result testConfig (Rejected (httpError 401 [])) =
     Inl (InvalidCredentialsError ''UPS'')
   \<and> refreshToken_result testConfig (Rejected (httpError 500 [])) =
     Inl (AuthenticationError ''UPS authentication failed with status 500''
            (Some ''UPS'') (Some 500))
   \<and> refreshToken_result testConfig (Rejected (AxiosFailure timedOut)) =
     Inl (TimeoutError ''Token request timed out'' 30000 (Some ''UPS'') None)
   \<and> refreshToken_result testConfig (Rejected (AxiosFailure connectionRefused)) =
     Inl (NetworkError ''Failed to connect to UPS authentication server'' (Some ''UPS''))
   \<and> map_of (settled (snd (refreshToken_begin noCredsConfig newAuthManager))) 0 =
     Some (Inl (InvalidCredentialsError ''UPS''))
   \<and> tokenPosts (snd (refreshToken_begin noCredsConfig newAuthManager)) = []"
proof -
  have e401: "httpError 401 [] =
      AxiosFailure \<lparr>ax_code = Some ''ERR_BAD_REQUEST'',
                    ax_response = Some \<lparr>status = 401, headers = [], data = Undefined\<rparr>\<rparr>"
    and e500: "httpError 500 [] =
      AxiosFailure \<lparr>ax_code = Some ''ERR_BAD_RESPONSE'',
                    ax_response = Some \<lparr>status = 500, headers = [], data = Undefined\<rparr>\<rparr>"
    by (simp_all add: httpError_def)
  have d500: "int_to_string 500 = ''500''"
    by code_simp
  have 1: "refreshToken_result testConfig (Rejected (httpError 401 [])) =
      Inl (InvalidCredentialsError ''UPS'')"
    using C5_refresh_failure_classification
      [of testConfig newAuthManager
          "\<lparr>ax_code = Some ''ERR_BAD_REQUEST'',
            ax_response = Some \<lparr>status = 401, headers = [], data = Undefined\<rparr>\<rparr>"]
    by (simp add: e401 isTimeoutCode_def auth_isConnectionCode_def)
  have 2: "refreshToken_result testConfig (Rejected (httpError 500 [])) =
      Inl (AuthenticationError ''UPS authentication failed with status 500''
             (Some ''UPS'') (Some 500))"
    using C5_refresh_failure_classification
      [of testConfig newAuthManager
          "\<lparr>ax_code = Some ''ERR_BAD_RESPONSE'',
            ax_response = Some \<lparr>status = 500, headers = [], data = Undefined\<rparr>\<rparr>"]
    by (simp add: e500 d500 isTimeoutCode_def auth_isConnectionCode_def)
  have 3: "refreshToken_result testConfig (Rejected (AxiosFailure timedOut)) =
      Inl (TimeoutError ''Token request timed out'' 30000 (Some ''UPS'') None)"
    using C5_refresh_failure_classification [of testConfig newAuthManager timedOut]
    by (simp add: timedOut_def isTimeoutCode_def testConfig_def)
  have 4: "refreshToken_result testConfig (Rejected (AxiosFailure connectionRefused)) =
      Inl (NetworkError ''Failed to connect to UPS authentication server'' (Some ''UPS''))"
    using C5_refresh_failure_classification [of testConfig newAuthManager connectionRefused]
    by (simp add: connectionRefused_def isTimeoutCode_def auth_isConnectionCode_def)
  have nc: "\<not> credentialsConfigured noCredsConfig"
    by (simp add: credentialsConfigured_def noCredsConfig_def)
  have 5: "map_of (settled (snd (refreshToken_begin noCredsConfig newAuthManager))) 0 =
        Some (Inl (InvalidCredentialsError ''UPS''))
      \<and> tokenPosts (snd (refreshToken_begin noCredsConfig newAuthManager)) = []"
    using C5_refresh_failure_classification [of noCredsConfig newAuthManager timedOut] nc
    by (simp add: refreshToken_begin_fst newAuthManager_def)
  show ?thesis using 1 2 3 4 5 by blast
qed

text \<open>The claim as stated fails for a transport error that is neither a timeout nor a
  refused or unresolved connection: a connection reset with no response is classified
  as a network error, not wrapped as an authentication error.\<close>

theorem C5_connection_reset_is_network_error:
  "refreshToken_result testConfig (Rejected (AxiosFailure connectionReset)) =
     Inl (NetworkError ''Network error during UPS authentication'' (Some ''UPS''))
   \<and> error_code (NetworkError ''Network error during UPS authentication'' (Some ''UPS''))
       = ''NETWORK_ERROR''"
  by (simp add: refreshToken_result_def refreshToken_catch_def auth_handleAxiosError_def
      connectionReset_def)

section \<open>Decimal numerals are read back\<close>

lemma of_char_digit_char: "d < 10 \<Longrightarrow> (of_char (digit_char d) :: nat) = 48 + d"
  by (simp add: digit_char_def)

lemma is_digit_digit_char: "d < 10 \<Longrightarrow> is_digit (digit_char d)"
  by (simp add: is_digit_def of_char_digit_char)

lemma digit_val_digit_char: "d < 10 \<Longrightarrow> digit_val (digit_char d) = d"
  by (simp add: digit_val_def of_char_digit_char)

lemma is_digit_not_space: "is_digit c \<Longrightarrow> \<not> js_isWhiteSpace c"
  by (auto simp: is_digit_def js_isWhiteSpace_def)

lemma is_digit_not_sign: "is_digit c \<Longrightarrow> c \<noteq> CHR ''-'' \<and> c \<noteq> CHR ''+'' \<and> c \<noteq> CHR ''.''"
  by (auto simp: is_digit_def)

lemma decimal_digits: "\<forall>c \<in> set (decimal n). is_digit c"
proof (induction n rule: decimal.induct)
  case (1 n)
  show ?case
  proof (cases "n < 10")
    case True
    then show ?thesis by (simp add: decimal.simps [of n] is_digit_digit_char)
  next
    case False
    then show ?thesis
      using 1 by (simp add: decimal.simps [of n] is_digit_digit_char)
  qed
qed

lemma decimal_nonempty: "decimal n \<noteq> []"
  by (simp add: decimal.simps [of n])

lemma digits_value_snoc: "digits_value (ds @ [c]) = 10 * digits_value ds + digit_val c"
  by (simp add: digits_value_def)

lemma digits_value_decimal: "digits_value (decimal n) = n"
proof (induction n rule: decimal.induct)
  case (1 n)
  show ?case
  proof (cases "n < 10")
    case True
    then show ?thesis
      by (simp add: decimal.simps [of n] digits_value_def digit_val_digit_char)
  next
    case False
    then have "digits_value (decimal (n div 10)) = n div 10"
      using 1 by simp
    then show ?thesis
      using False
      by (simp add: decimal.simps [of n] digits_value_snoc digit_val_digit_char)
  qed
qed

lemma takeWhile_all: "\<forall>c \<in> set xs. P c \<Longrightarrow> takeWhile P xs = xs"
  by (induction xs) simp_all

lemma dropWhile_head: "xs \<noteq> [] \<Longrightarrow> \<not> P (hd xs) \<Longrightarrow> dropWhile P xs = xs"
  by (cases xs) simp_all

lemma hd_decimal_digit: "is_digit (hd (decimal n))"
  using decimal_digits [of n] decimal_nonempty [of n] by (cases "decimal n") simp_all

lemma js_parseInt_decimal: "js_parseInt (decimal n) = Fin (of_nat n)"
proof -
  have t: "dropWhile js_isWhiteSpace (decimal n) = decimal n"
    using hd_decimal_digit [of n] decimal_nonempty [of n]
    by (intro dropWhile_head) (simp_all add: is_digit_not_space)
  have s: "hd (decimal n) \<noteq> CHR ''-''" "hd (decimal n) \<noteq> CHR ''+''"
    using hd_decimal_digit [of n] is_digit_not_sign by blast+
  have z: "takeWhile is_digit (decimal n) = decimal n"
    using decimal_digits by (rule takeWhile_all)
  show ?thesis
    by (simp add: js_parseInt_def t s z decimal_nonempty digits_value_decimal)
qed

section \<open>Classification of rating failures\<close>

text \<open>
  A failed rating call is classified by the error code first: a timeout code gives
  the retryable "timeout error" with the configured timeout, a connection code the
  retryable "network error". Otherwise, with an HTTP response: status 429 gives the
  "rate limit" error, always retryable, whose retry-after seconds are \<open>parseInt\<close> of
  the \<open>Retry-After\<close> header when it is there and not empty (the number \<open>n\<close> for its
  decimal numeral), and absent otherwise; any other status gives the "carrier API
  error" carrying the status, retryable exactly when the status is at least 500 (or
  429). Without a response, and for anything that is not a transport error, the result
  is a retryable "network error".
\<close>

lemma rating_failure_classification:
  "(isTimeoutCode (ax_code e) \<longrightarrow>
      callRatingApi_result cfg requestId (Rejected (AxiosFailure e)) =
        Inl (TimeoutError ''Request timed out'' (timeoutMs cfg) (Some (carrierId cfg))
               (Some requestId))
      \<and> isRetryable (TimeoutError ''Request timed out'' (timeoutMs cfg) (Some (carrierId cfg))
               (Some requestId)))
   \<and> (\<not> isTimeoutCode (ax_code e) \<and> svc_isConnectionCode (ax_code e) \<longrightarrow>
      callRatingApi_result cfg requestId (Rejected (AxiosFailure e)) =
        Inl (NetworkError ''Could not connect to API'' (Some (carrierId cfg)))
      \<and> isRetryable (NetworkError ''Could not connect to API'' (Some (carrierId cfg))))
   \<and> (\<forall>r. \<not> isTimeoutCode (ax_code e) \<and> \<not> svc_isConnectionCode (ax_code e)
          \<and> ax_response e = Some r \<and> status r = 429 \<longrightarrow>
      (\<exists>retryAfter.
         callRatingApi_result cfg requestId (Rejected (AxiosFailure e)) =
           Inl (RateLimitError (carrierId cfg) retryAfter (Some requestId))
         \<and> isRetryable (RateLimitError (carrierId cfg) retryAfter (Some requestId))
         \<and> (\<forall>h. map_of (headers r) ''retry-after'' = Some h \<and> h \<noteq> [] \<longrightarrow>
               retryAfter = Some (js_parseInt h))
         \<and> (\<forall>n. map_of (headers r) ''retry-after'' = Some (decimal n) \<longrightarrow>
               retryAfter = Some (Fin (of_nat n)))
         \<and> (map_of (headers r) ''retry-after'' = None
                \<or> map_of (headers r) ''retry-after'' = Some [] \<longrightarrow> retryAfter = None)))
   \<and> (\<forall>r. \<not> isTimeoutCode (ax_code e) \<and> \<not> svc_isConnectionCode (ax_code e)
          \<and> ax_response e = Some r \<and> status r \<noteq> 429 \<longrightarrow>
      callRatingApi_result cfg requestId (Rejected (AxiosFailure e)) =
        Inl (CarrierApiError (''API error '' @ int_to_string (status r)) (status r)
               (Some (carrierId cfg)) (Some requestId))
      \<and> (isRetryable (CarrierApiError (''API error '' @ int_to_string (status r)) (status r)
               (Some (carrierId cfg)) (Some requestId))
           \<longleftrightarrow> status r \<ge> 500 \<or> status r = 429))
   \<and> (\<not> isTimeoutCode (ax_code e) \<and> \<not> svc_isConnectionCode (ax_code e)
          \<and> ax_response e = None \<longrightarrow>
      callRatingApi_result cfg requestId (Rejected (AxiosFailure e)) =
        Inl (NetworkError ''Network error'' (Some (carrierId cfg)))
      \<and> isRetryable (NetworkError ''Network error'' (Some (carrierId cfg))))
   \<and> callRatingApi_result cfg requestId (Rejected (OtherFailure x)) =
        Inl (NetworkError ''Unexpected error calling UPS Rating API'' (Some ''UPS''))
   \<and> (\<not> instanceof_ResponseParsingError c \<longrightarrow>
      callRatingApi_result cfg requestId (Rejected (Classified c)) =
        Inl (NetworkError ''Unexpected error calling UPS Rating API'' (Some ''UPS'')))"
proof -
  have limit: "\<exists>retryAfter.
      callRatingApi_result cfg requestId (Rejected (AxiosFailure e)) =
        Inl (RateLimitError (carrierId cfg) retryAfter (Some requestId))
      \<and> isRetryable (RateLimitError (carrierId cfg) retryAfter (Some requestId))
      \<and> (\<forall>h. map_of (headers r) ''retry-after'' = Some h \<and> h \<noteq> [] \<longrightarrow>
            retryAfter = Some (js_parseInt h))
      \<and> (\<forall>n. map_of (headers r) ''retry-after'' = Some (decimal n) \<longrightarrow>
            retryAfter = Some (Fin (of_nat n)))
      \<and> (map_of (headers r) ''retry-after'' = None
            \<or> map_of (headers r) ''retry-after'' = Some [] \<longrightarrow> retryAfter = None)"
    if "\<not> isTimeoutCode (ax_code e)" "\<not> svc_isConnectionCode (ax_code e)"
       "ax_response e = Some r" "status r = 429" for r
  proof -
    let ?ra = "case map_of (headers r) ''retry-after'' of
                 Some h \<Rightarrow> if h \<noteq> [] then Some (js_parseInt h) else None
               | None \<Rightarrow> None"
    have "callRatingApi_result cfg requestId (Rejected (AxiosFailure e)) =
        Inl (RateLimitError (carrierId cfg) ?ra (Some requestId))"
      using that
      by (simp add: callRatingApi_result_def svc_handleAxiosError_def isTimeoutCode_def
          svc_isConnectionCode_def)
    moreover have "\<forall>h. map_of (headers r) ''retry-after'' = Some h \<and> h \<noteq> [] \<longrightarrow>
        ?ra = Some (js_parseInt h)"
      by simp
    moreover have "\<forall>n. map_of (headers r) ''retry-after'' = Some (decimal n) \<longrightarrow>
        ?ra = Some (Fin (of_nat n))"
      by (simp add: decimal_nonempty js_parseInt_decimal)
    moreover have "map_of (headers r) ''retry-after'' = None
        \<or> map_of (headers r) ''retry-after'' = Some [] \<longrightarrow> ?ra = None"
      by auto
    ultimately show ?thesis by (intro exI [of _ ?ra]) simp
  qed
  have rest: "(isTimeoutCode (ax_code e) \<longrightarrow>
      callRatingApi_result cfg requestId (Rejected (AxiosFailure e)) =
        Inl (TimeoutError ''Request timed out'' (timeoutMs cfg) (Some (carrierId cfg))
               (Some requestId)))
   \<and> (\<not> isTimeoutCode (ax_code e) \<and> svc_isConnectionCode (ax_code e) \<longrightarrow>
      callRatingApi_result cfg requestId (Rejected (AxiosFailure e)) =
        Inl (NetworkError ''Could not connect to API'' (Some (carrierId cfg))))
   \<and> (\<forall>r. \<not> isTimeoutCode (ax_code e) \<and> \<not> svc_isConnectionCode (ax_code e)
          \<and> ax_response e = Some r \<and> status r \<noteq> 429 \<longrightarrow>
      callRatingApi_result cfg requestId (Rejected (AxiosFailure e)) =
        Inl (CarrierApiError (''API error '' @ int_to_string (status r)) (status r)
               (Some (carrierId cfg)) (Some requestId)))
   \<and> (\<not> isTimeoutCode (ax_code e) \<and> \<not> svc_isConnectionCode (ax_code e)
          \<and> ax_response e = None \<longrightarrow>
      callRatingApi_result cfg requestId (Rejected (AxiosFailure e)) =
        Inl (NetworkError ''Network error'' (Some (carrierId cfg))))
   \<and> callRatingApi_result cfg requestId (Rejected (OtherFailure x)) =
        Inl (NetworkError ''Unexpected error calling UPS Rating API'' (Some ''UPS''))
   \<and> (\<not> instanceof_ResponseParsingError c \<longrightarrow>
      callRatingApi_result cfg requestId (Rejected (Classified c)) =
        Inl (NetworkError ''Unexpected error calling UPS Rating API'' (Some ''UPS'')))"
    by (auto simp: callRatingApi_result_def svc_handleAxiosError_def isTimeoutCode_def
        svc_isConnectionCode_def)
  show ?thesis
    using limit rest by (simp del: isRetryable.simps add: isRetryable.simps(4,5,6,7))
qed

lemma rating_failure_examples:
  "callRatingApi_result testConfig ''req-1'' (Rejected (httpError 429 [(''retry-after'', ''60'')]))
     = Inl (RateLimitError ''UPS'' (Some (Fin 60)) (Some ''req-1''))
   \<and> callRatingApi_result testConfig ''req-1'' (Rejected (httpError 429 []))
     = Inl (RateLimitError ''UPS'' None (Some ''req-1''))
   \<and> callRatingApi_result testConfig ''req-1'' (Rejected (httpError 503 []))
     = Inl (CarrierApiError ''API error 503'' 503 (Some ''UPS'') (Some ''req-1''))
   \<and> isRetryable (CarrierApiError ''API error 503'' 503 (Some ''UPS'') (Some ''req-1''))
   \<and> callRatingApi_result testConfig ''req-1'' (Rejected (AxiosFailure timedOut))
     = Inl (TimeoutError ''Request timed out'' 30000 (Some ''UPS'') (Some ''req-1''))
   \<and> callRatingApi_result testConfig ''req-1'' (Rejected (AxiosFailure connectionReset))
     = Inl (NetworkError ''Could not connect to API'' (Some ''UPS''))"
proof -
  define limited where "limited hs =
      \<lparr>ax_code = Some ''ERR_BAD_REQUEST'',
       ax_response = Some \<lparr>status = 429, headers = hs, data = Undefined\<rparr>\<rparr>"
    for hs :: "(string \<times> string) list"
  define unavailable where "unavailable =
      \<lparr>ax_code = Some ''ERR_BAD_RESPONSE'',
       ax_response = Some \<lparr>status = 503, headers = [], data = Undefined\<rparr>\<rparr>"
  have e: "httpError 429 hs = AxiosFailure (limited hs)"
    "httpError 503 [] = AxiosFailure unavailable" for hs
    by (simp_all add: httpError_def limited_def unavailable_def)
  have d: "decimal 60 = ''60''" "int_to_string 503 = ''503''"
    by code_simp+
  have c: "carrierId testConfig = ''UPS''" "timeoutMs testConfig = 30000"
    by (simp_all add: testConfig_def)
  have codes: "\<not> isTimeoutCode (ax_code (limited hs))"
    "\<not> svc_isConnectionCode (ax_code (limited hs))"
    "\<not> isTimeoutCode (ax_code unavailable)" "\<not> svc_isConnectionCode (ax_code unavailable)"
    "isTimeoutCode (ax_code timedOut)"
    "\<not> isTimeoutCode (ax_code connectionReset)" "svc_isConnectionCode (ax_code connectionReset)"
    for hs
    by (simp_all add: limited_def unavailable_def timedOut_def connectionReset_def
        isTimeoutCode_def svc_isConnectionCode_def)
  have with_header: "callRatingApi_result testConfig ''req-1''
      (Rejected (AxiosFailure (limited [(''retry-after'', ''60'')])))
      = Inl (RateLimitError ''UPS'' (Some (Fin 60)) (Some ''req-1''))"
  proof -
    from rating_failure_classification
      [of "limited [(''retry-after'', ''60'')]" testConfig "''req-1''",
       THEN conjunct2, THEN conjunct2, THEN conjunct1, rule_format,
       of "\<lparr>status = 429, headers = [(''retry-after'', ''60'')], data = Undefined\<rparr>"]
    obtain retryAfter where
      r: "callRatingApi_result testConfig ''req-1''
            (Rejected (AxiosFailure (limited [(''retry-after'', ''60'')])))
          = Inl (RateLimitError (carrierId testConfig) retryAfter (Some ''req-1''))"
      and n: "\<forall>n. map_of (headers \<lparr>status = 429, headers = [(''retry-after'', ''60'')],
                                     data = Undefined\<rparr>) ''retry-after'' = Some (decimal n) \<longrightarrow>
                retryAfter = Some (Fin (of_nat n))"
      using codes by (auto simp: limited_def)
    have "retryAfter = Some (Fin (of_nat 60))"
      using n [rule_format, of 60] by (simp add: d)
    then show ?thesis using r by (simp add: c)
  qed
  have without_header: "callRatingApi_result testConfig ''req-1''
      (Rejected (AxiosFailure (limited []))) = Inl (RateLimitError ''UPS'' None (Some ''req-1''))"
  proof -
    from rating_failure_classification
      [of "limited []" testConfig "''req-1''",
       THEN conjunct2, THEN conjunct2, THEN conjunct1, rule_format,
       of "\<lparr>status = 429, headers = [], data = Undefined\<rparr>"]
    obtain retryAfter where
      r: "callRatingApi_result testConfig ''req-1'' (Rejected (AxiosFailure (limited [])))
          = Inl (RateLimitError (carrierId testConfig) retryAfter (Some ''req-1''))"
      and n: "map_of (headers \<lparr>status = 429, headers = [], data = Undefined\<rparr>) ''retry-after'' = None
                \<or> map_of (headers \<lparr>status = 429, headers = [], data = Undefined\<rparr>) ''retry-after''
                    = Some [] \<longrightarrow> retryAfter = None"
      using codes by (auto simp: limited_def)
    have "retryAfter = None" using n by simp
    then show ?thesis using r by (simp add: c)
  qed
  have server: "callRatingApi_result testConfig ''req-1'' (Rejected (AxiosFailure unavailable))
      = Inl (CarrierApiError ''API error 503'' 503 (Some ''UPS'') (Some ''req-1''))
      \<and> isRetryable (CarrierApiError ''API error 503'' 503 (Some ''UPS'') (Some ''req-1''))"
    using rating_failure_classification
      [of unavailable testConfig "''req-1''",
       THEN conjunct2, THEN conjunct2, THEN conjunct2, THEN conjunct1, rule_format,
       of "\<lparr>status = 503, headers = [], data = Undefined\<rparr>"] codes
    by (simp add: unavailable_def c d)
  have timeout: "callRatingApi_result testConfig ''req-1'' (Rejected (AxiosFailure timedOut))
      = Inl (TimeoutError ''Request timed out'' 30000 (Some ''UPS'') (Some ''req-1''))"
    using rating_failure_classification
      [of timedOut testConfig "''req-1''", THEN conjunct1] codes
    by (simp add: c)
  have reset: "callRatingApi_result testConfig ''req-1'' (Rejected (AxiosFailure connectionReset))
      = Inl (NetworkError ''Could not connect to API'' (Some ''UPS''))"
    using rating_failure_classification
      [of connectionReset testConfig "''req-1''", THEN conjunct2, THEN conjunct1] codes
    by (simp add: c)
  show ?thesis
    using with_header without_header server timeout reset by (simp add: e)
qed

text \<open>The body of the response is not read: the retry-after seconds come from the
  header alone.\<close>

lemma retry_after_not_read_from_body:
  "svc_handleAxiosError cfg (e\<lparr>ax_response := Some (r\<lparr>data := body\<rparr>)\<rparr>) requestId
     = svc_handleAxiosError cfg (e\<lparr>ax_response := Some r\<rparr>) requestId"
  by (simp add: svc_handleAxiosError_def)

text \<open>
  C6. The classification is as the claim says (\<open>rating_failure_classification\<close>), but
  for the retry-after seconds of the "rate limit" error. They are not the carrier's
  value when present and absent otherwise: they are \<open>parseInt\<close> of the \<open>Retry-After\<close>
  header whenever the header is there and not empty, with no check of the result. A
  header that does not begin with a decimal numeral, an HTTP date for one, gives the
  error retry-after seconds that are \<open>NaN\<close>: neither a value nor absent.
\<close>

theorem C6_retry_after_not_a_number:
  "callRatingApi_result testConfig ''req-1'' (Rejected retryAfterDate)
     = Inl (RateLimitError ''UPS'' (Some NaN) (Some ''req-1''))
   \<and> js_parseInt ''Wed, 21 Oct 2015 07:28:00 GMT'' = NaN
   \<and> js_parseInt ''abc'' = NaN"
  by (simp add: retryAfterDate_def httpError_def callRatingApi_result_def
      svc_handleAxiosError_def testConfig_def js_parseInt_def js_isWhiteSpace_def is_digit_def)

section \<open>The rate service: parsing errors, the single retry, the response status\<close>

lemma callRatingApi_eq:
  "callRatingApi cfg env rq token requestId w =
     (callRatingApi_result cfg requestId (ratingReply env (length (ratingPosts w))),
      w\<lparr>ratingPosts := ratingPosts w @
           [\<lparr>rp_request = rq, rp_bearer = token, rp_transId = requestId\<rparr>]\<rparr>)"
  by (simp add: callRatingApi_def)

lemma getRates_after_token:
  assumes valid: "validateRequest env request = Inr v"
      and token: "getAccessToken cfg env now (authManager w) = (Inr token, a1)"
  shows "getRates cfg env numToString requestId now request w =
     (let post1 = \<lparr>rp_request = wireRequest cfg numToString v, rp_bearer = token,
                    rp_transId = requestId\<rparr>;
          w1 = w\<lparr>authManager := a1, ratingPosts := ratingPosts w @ [post1]\<rparr>
      in case callRatingApi_result cfg requestId (ratingReply env (length (ratingPosts w))) of
           Inr upsResponse \<Rightarrow> (fromUPSRateResponse_untyped upsResponse requestId v, w1)
         | Inl err \<Rightarrow>
             if isAuthError err then
               (case forceRefresh cfg env now a1 of
                  (Inl e, a2) \<Rightarrow> (Inl e, w1\<lparr>authManager := a2\<rparr>)
                | (Inr freshToken, a2) \<Rightarrow>
                    ((case callRatingApi_result cfg requestId
                             (ratingReply env (length (ratingPosts w) + 1)) of
                        Inl err2 \<Rightarrow> Inl (Classified err2)
                      | Inr upsResponse \<Rightarrow>
                          fromUPSRateResponse_untyped upsResponse requestId v),
                     w\<lparr>authManager := a2,
                       ratingPosts := ratingPosts w @
                         [post1, \<lparr>rp_request = wireRequest cfg numToString v,
                                  rp_bearer = freshToken, rp_transId = requestId\<rparr>]\<rparr>))
             else (Inl (Classified err), w1))"
  by (simp add: getRates_def valid token callRatingApi_eq wireRequest_def Let_def
      split: sum.split prod.split)

lemma falsy_result:
  "\<not> value_truthy (data_RatedShipment (data resp)) \<Longrightarrow>
     callRatingApi_result cfg requestId (Fulfilled resp) = Inl (parsingError requestId)"
  by (simp add: callRatingApi_result_def parsingError_def)

lemma truthy_result:
  "value_truthy (data_RatedShipment (data resp)) \<Longrightarrow>
     callRatingApi_result cfg requestId (Fulfilled resp) = Inr (data resp)"
  by (simp add: callRatingApi_result_def)

text \<open>
  A rating reply that is an HTTP success but whose \<open>RatedShipment\<close> is missing, or is
  there with a value that counts as false, makes \<open>callRatingApi\<close> raise the "response
  parsing error", which is not retryable and is not an auth error. \<open>getRates\<close> then
  fails with exactly that error after this one request: the token is not refreshed and
  the request is not repeated. The same holds for the reply to the repeated request
  after an auth error: the parsing error is the result, after two requests.
\<close>

lemma missing_rated_shipments:
  assumes lacking: "\<not> value_truthy (data_RatedShipment (data resp))"
  shows "callRatingApi_result cfg requestId (Fulfilled resp) = Inl (parsingError requestId)
       \<and> error_code (parsingError requestId) = ''RESPONSE_PARSING_ERROR''
       \<and> \<not> isRetryable (parsingError requestId)
       \<and> \<not> isAuthError (parsingError requestId)
       \<and> (\<forall>v token a1.
             validateRequest env request = Inr v
             \<and> getAccessToken cfg env now (authManager w) = (Inr token, a1)
             \<and> ratingReply env (length (ratingPosts w)) = Fulfilled resp \<longrightarrow>
             getRates cfg env numToString requestId now request w =
               (Inl (Classified (parsingError requestId)),
                w\<lparr>authManager := a1,
                  ratingPosts := ratingPosts w @
                    [\<lparr>rp_request = wireRequest cfg numToString v, rp_bearer = token,
                      rp_transId = requestId\<rparr>]\<rparr>))
       \<and> (\<forall>v token a1 e freshToken a2.
             validateRequest env request = Inr v
             \<and> getAccessToken cfg env now (authManager w) = (Inr token, a1)
             \<and> ratingReply env (length (ratingPosts w)) = Rejected (AxiosFailure e)
             \<and> isAuthError (svc_handleAxiosError cfg e requestId)
             \<and> forceRefresh cfg env now a1 = (Inr freshToken, a2)
             \<and> ratingReply env (length (ratingPosts w) + 1) = Fulfilled resp \<longrightarrow>
             fst (getRates cfg env numToString requestId now request w) =
               Inl (Classified (parsingError requestId))
             \<and> length (ratingPosts (snd (getRates cfg env numToString requestId now request w)))
                 = length (ratingPosts w) + 2)"
proof -
  have r: "callRatingApi_result cfg requestId (Fulfilled resp) = Inl (parsingError requestId)"
    using lacking by (rule falsy_result)
  have g: "getRates cfg env numToString requestId now request w =
        (Inl (Classified (parsingError requestId)),
         w\<lparr>authManager := a1,
           ratingPosts := ratingPosts w @
             [\<lparr>rp_request = wireRequest cfg numToString v, rp_bearer = token,
               rp_transId = requestId\<rparr>]\<rparr>)"
    if "validateRequest env request = Inr v"
       "getAccessToken cfg env now (authManager w) = (Inr token, a1)"
       "ratingReply env (length (ratingPosts w)) = Fulfilled resp" for v token a1
    using that r
    by (simp add: getRates_after_token [OF that(1,2)] parsingError_def)
  have g2: "fst (getRates cfg env numToString requestId now request w) =
        Inl (Classified (parsingError requestId))
      \<and> length (ratingPosts (snd (getRates cfg env numToString requestId now request w)))
          = length (ratingPosts w) + 2"
    if "validateRequest env request = Inr v"
       "getAccessToken cfg env now (authManager w) = (Inr token, a1)"
       "ratingReply env (length (ratingPosts w)) = Rejected (AxiosFailure e)"
       "isAuthError (svc_handleAxiosError cfg e requestId)"
       "forceRefresh cfg env now a1 = (Inr freshToken, a2)"
       "ratingReply env (length (ratingPosts w) + 1) = Fulfilled resp"
    for v token a1 e freshToken a2
    using that(3-6) r
    by (simp add: getRates_after_token [OF that(1,2)] callRatingApi_result_def [of _ _ "Rejected _"]
        Let_def)
  have props: "error_code (parsingError requestId) = ''RESPONSE_PARSING_ERROR''"
    "\<not> isRetryable (parsingError requestId)" "\<not> isAuthError (parsingError requestId)"
    by (simp_all add: parsingError_def)
  show ?thesis
    using r g g2 props by blast
qed

text \<open>
  A reply whose \<open>RatedShipment\<close> is there and counts as true, but is not an array,
  passes the structural check. The mapper then calls \<open>map\<close> on it, and \<open>getRates\<close>
  fails with the \<open>TypeError\<close> of that call, which is not one of the classified errors.
\<close>

lemma non_list_escapes:
  assumes lacking: "lacksRatedShipment (data resp)"
      and truthy: "value_truthy (data_RatedShipment (data resp))"
      and valid: "validateRequest env request = Inr v"
      and token: "getAccessToken cfg env now (authManager w) = (Inr token, a1)"
      and reply: "ratingReply env (length (ratingPosts w)) = Fulfilled resp"
  shows "getRates cfg env numToString requestId now request w =
           (Inl (OtherFailure ''TypeError''),
            w\<lparr>authManager := a1,
              ratingPosts := ratingPosts w @
                [\<lparr>rp_request = wireRequest cfg numToString v, rp_bearer = token,
                  rp_transId = requestId\<rparr>]\<rparr>)"
proof -
  have "fromUPSRateResponse_untyped (data resp) requestId v = Inl (OtherFailure ''TypeError'')"
    using lacking
    by (auto simp: fromUPSRateResponse_untyped_def lacksRatedShipment_def data_RatedShipment_def
        split: option.splits RatedShipment_value.splits)
  then show ?thesis
    using truthy_result [OF truthy, of cfg requestId]
    by (simp add: getRates_after_token [OF valid token] reply Let_def)
qed

lemma auth_status_result:
  assumes "\<not> isTimeoutCode (ax_code e)" "\<not> svc_isConnectionCode (ax_code e)"
      and "ax_response e = Some r" "status r \<noteq> 429"
  shows "callRatingApi_result cfg requestId (Rejected (AxiosFailure e)) =
           Inl (CarrierApiError (''API error '' @ int_to_string (status r)) (status r)
                  (Some (carrierId cfg)) (Some requestId))"
  using assms
  by (simp add: callRatingApi_result_def svc_handleAxiosError_def isTimeoutCode_def
      svc_isConnectionCode_def)

lemma isAuthError_http:
  assumes "\<not> isTimeoutCode (ax_code e)" "\<not> svc_isConnectionCode (ax_code e)"
      and "ax_response e = Some r"
  shows "isAuthError (svc_handleAxiosError cfg e requestId) \<longleftrightarrow> status r = 401 \<or> status r = 403"
  using assms
  by (auto simp: svc_handleAxiosError_def isTimeoutCode_def svc_isConnectionCode_def)

lemma rejected_axios_result:
  "callRatingApi_result cfg requestId (Rejected (AxiosFailure e)) =
     Inl (svc_handleAxiosError cfg e requestId)"
  by (simp add: callRatingApi_result_def)

text \<open>
  C2. Let the request be valid, the token acquired, and the first rating call fail
  with an HTTP response of status \<open>r\<close>. If the status is 401 or 403, \<open>forceRefresh()\<close>
  is called once. When it fails, its failure is the result and no request is repeated.
  When it returns a token, the same wire request is sent once more, with the same
  request id and the new token, and the outcome of that second call is the result,
  success or failure: a second 401 is the carrier API error of status 401, and at most
  two requests are ever sent. With any other status the classified failure of the
  first call is the result: one request, no refresh.
\<close>

theorem C2_single_auth_retry:
  assumes valid: "validateRequest env request = Inr v"
      and token: "getAccessToken cfg env now (authManager w) = (Inr token, a1)"
      and first: "ratingReply env (length (ratingPosts w)) = Rejected (AxiosFailure e)"
      and http: "\<not> isTimeoutCode (ax_code e)" "\<not> svc_isConnectionCode (ax_code e)"
                "ax_response e = Some r"
  shows "(status r = 401 \<or> status r = 403 \<longrightarrow>
           (case forceRefresh cfg env now a1 of
              (Inl err, a2) \<Rightarrow>
                getRates cfg env numToString requestId now request w =
                  (Inl err,
                   w\<lparr>authManager := a2,
                     ratingPosts := ratingPosts w @
                       [\<lparr>rp_request = wireRequest cfg numToString v, rp_bearer = token,
                         rp_transId = requestId\<rparr>]\<rparr>)
            | (Inr freshToken, a2) \<Rightarrow>
                getRates cfg env numToString requestId now request w =
                  ((case callRatingApi_result cfg requestId
                           (ratingReply env (length (ratingPosts w) + 1)) of
                      Inl err2 \<Rightarrow> Inl (Classified err2)
                    | Inr upsResponse \<Rightarrow>
                        fromUPSRateResponse_untyped upsResponse requestId v),
                   w\<lparr>authManager := a2,
                     ratingPosts := ratingPosts w @
                       [\<lparr>rp_request = wireRequest cfg numToString v, rp_bearer = token,
                         rp_transId = requestId\<rparr>,
                        \<lparr>rp_request = wireRequest cfg numToString v, rp_bearer = freshToken,
                         rp_transId = requestId\<rparr>]\<rparr>)
                \<and> (\<forall>e2 r2. ratingReply env (length (ratingPosts w) + 1)
                               = Rejected (AxiosFailure e2)
                     \<and> \<not> isTimeoutCode (ax_code e2) \<and> \<not> svc_isConnectionCode (ax_code e2)
                     \<and> ax_response e2 = Some r2 \<and> status r2 = 401 \<longrightarrow>
                     fst (getRates cfg env numToString requestId now request w) =
                       Inl (Classified (CarrierApiError ''API error 401'' 401
                              (Some (carrierId cfg)) (Some requestId))))))
       \<and> (status r \<noteq> 401 \<and> status r \<noteq> 403 \<longrightarrow>
           getRates cfg env numToString requestId now request w =
             (Inl (Classified (svc_handleAxiosError cfg e requestId)),
              w\<lparr>authManager := a1,
                ratingPosts := ratingPosts w @
                  [\<lparr>rp_request = wireRequest cfg numToString v, rp_bearer = token,
                    rp_transId = requestId\<rparr>]\<rparr>))"
proof -
  note g = getRates_after_token [OF valid token, of numToString requestId]
  have r1: "callRatingApi_result cfg requestId (ratingReply env (length (ratingPosts w))) =
      Inl (svc_handleAxiosError cfg e requestId)"
    by (simp add: first rejected_axios_result)
  have auth: "isAuthError (svc_handleAxiosError cfg e requestId) \<longleftrightarrow>
      status r = 401 \<or> status r = 403"
    using http by (rule isAuthError_http)
  have d401: "int_to_string 401 = ''401''"
    by code_simp
  have other: "getRates cfg env numToString requestId now request w =
      (Inl (Classified (svc_handleAxiosError cfg e requestId)),
       w\<lparr>authManager := a1,
         ratingPosts := ratingPosts w @
           [\<lparr>rp_request = wireRequest cfg numToString v, rp_bearer = token,
             rp_transId = requestId\<rparr>]\<rparr>)"
    if "status r \<noteq> 401 \<and> status r \<noteq> 403"
    using that auth by (simp add: g r1 Let_def)
  have retry: "(case forceRefresh cfg env now a1 of
      (Inl err, a2) \<Rightarrow>
        getRates cfg env numToString requestId now request w =
          (Inl err,
           w\<lparr>authManager := a2,
             ratingPosts := ratingPosts w @
               [\<lparr>rp_request = wireRequest cfg numToString v, rp_bearer = token,
                 rp_transId = requestId\<rparr>]\<rparr>)
    | (Inr freshToken, a2) \<Rightarrow>
        getRates cfg env numToString requestId now request w =
          ((case callRatingApi_result cfg requestId
                   (ratingReply env (length (ratingPosts w) + 1)) of
              Inl err2 \<Rightarrow> Inl (Classified err2)
            | Inr upsResponse \<Rightarrow> fromUPSRateResponse_untyped upsResponse requestId v),
           w\<lparr>authManager := a2,
             ratingPosts := ratingPosts w @
               [\<lparr>rp_request = wireRequest cfg numToString v, rp_bearer = token,
                 rp_transId = requestId\<rparr>,
                \<lparr>rp_request = wireRequest cfg numToString v, rp_bearer = freshToken,
                 rp_transId = requestId\<rparr>]\<rparr>)
        \<and> (\<forall>e2 r2. ratingReply env (length (ratingPosts w) + 1)
                       = Rejected (AxiosFailure e2)
             \<and> \<not> isTimeoutCode (ax_code e2) \<and> \<not> svc_isConnectionCode (ax_code e2)
             \<and> ax_response e2 = Some r2 \<and> status r2 = 401 \<longrightarrow>
             fst (getRates cfg env numToString requestId now request w) =
               Inl (Classified (CarrierApiError ''API error 401'' 401
                      (Some (carrierId cfg)) (Some requestId)))))"
    if "status r = 401 \<or> status r = 403"
  proof (cases "forceRefresh cfg env now a1")
    case (Pair res a2)
    show ?thesis
    proof (cases res)
      case (Inl err)
      then show ?thesis
        using that auth by (simp add: Pair g r1 Let_def)
    next
      case (Inr freshToken)
      have eq: "getRates cfg env numToString requestId now request w =
          ((case callRatingApi_result cfg requestId
                   (ratingReply env (length (ratingPosts w) + 1)) of
              Inl err2 \<Rightarrow> Inl (Classified err2)
            | Inr upsResponse \<Rightarrow> fromUPSRateResponse_untyped upsResponse requestId v),
           w\<lparr>authManager := a2,
             ratingPosts := ratingPosts w @
               [\<lparr>rp_request = wireRequest cfg numToString v, rp_bearer = token,
                 rp_transId = requestId\<rparr>,
                \<lparr>rp_request = wireRequest cfg numToString v, rp_bearer = freshToken,
                 rp_transId = requestId\<rparr>]\<rparr>)"
        using that auth by (simp add: Pair Inr g r1 Let_def)
      have again: "fst (getRates cfg env numToString requestId now request w) =
          Inl (Classified (CarrierApiError ''API error 401'' 401
                 (Some (carrierId cfg)) (Some requestId)))"
        if "ratingReply env (length (ratingPosts w) + 1) = Rejected (AxiosFailure e2)"
           "\<not> isTimeoutCode (ax_code e2)" "\<not> svc_isConnectionCode (ax_code e2)"
           "ax_response e2 = Some r2" "status r2 = 401" for e2 r2
        using auth_status_result [OF that(2,3,4), of cfg requestId] that(1,5)
        by (simp add: eq d401)
      show ?thesis
        using eq again by (simp add: Pair Inr)
    qed
  qed
  show ?thesis using retry other by blast
qed

text \<open>
  C10. Whatever the wire response holds, its own status block or none, the response
  status of the mapped result is code "1", description "Success", and the mapped
  result does not depend on the carrier's status block at all.
\<close>

theorem C10_status_always_success:
  "Response_ResponseStatus (fromUPSRateResponse upsResponse requestId originalRequest)
     = \<lparr>rs_Code = ''1'', rs_Description = ''Success''\<rparr>
   \<and> fromUPSRateResponse (upsResponse\<lparr>Response := carrierStatus\<rparr>) requestId originalRequest
     = fromUPSRateResponse upsResponse requestId originalRequest"
  by (simp add: fromUPSRateResponse_def)

section \<open>The scenarios of the integration tests\<close>

lemmas ev = scenario_def newService_def newAuthManager_def testConfig_def tokenOk_def
  refreshedTokenOk_def successfulTokenResponse_def tokenResponse_def access_token_def
  field_def getAccessToken_def forceRefresh_def
  getAccessToken_enter_def forceRefresh_enter_def isTokenValid_def refreshToken_begin_def
  complete_call_def await_refresh_def refresh_settles_def refreshToken_settle_def
  refreshToken_result_def getAccessToken_finally_def validateRequest_def Let_def

lemma first_token:
  "fst (getAccessToken testConfig (scenario rs) 0 (authManager newService))
     = Inr (String ''test-access-token'')"
  by (simp add: ev)

lemma fresh_token:
  "fst (forceRefresh testConfig (scenario rs) 0
          (snd (getAccessToken testConfig (scenario rs) 0 (authManager newService))))
     = Inr (String ''refreshed-token'')"
  by (simp add: ev)

theorem C2_single_auth_retry_witness:
  "fst (getRates testConfig (scenario [Rejected (httpError 401 [])]) integerToString ''req-1'' 0
          validRateRequest newService)
     = Inl (Classified (CarrierApiError ''API error 401'' 401 (Some ''UPS'') (Some ''req-1'')))
   \<and> map rp_bearer (ratingPosts (snd (getRates testConfig (scenario [Rejected (httpError 401 [])])
          integerToString ''req-1'' 0 validRateRequest newService)))
     = [String ''test-access-token'', String ''refreshed-token'']"
proof -
  define env where "env = scenario [Rejected (httpError 401 [])]"
  define a1 where "a1 = snd (getAccessToken testConfig env 0 (authManager newService))"
  define a2 where "a2 = snd (forceRefresh testConfig env 0 a1)"
  define e where "e = \<lparr>ax_code = Some ''ERR_BAD_REQUEST'',
                        ax_response = Some \<lparr>status = 401, headers = [], data = Undefined\<rparr>\<rparr>"
  have valid: "validateRequest env validRateRequest = Inr validRateRequest"
    by (simp add: env_def validateRequest_def scenario_def)
  have token: "getAccessToken testConfig env 0 (authManager newService)
      = (Inr (String ''test-access-token''), a1)"
    using first_token [of "[Rejected (httpError 401 [])]"]
    by (simp add: a1_def env_def prod_eq_iff)
  have fresh: "forceRefresh testConfig env 0 a1 = (Inr (String ''refreshed-token''), a2)"
    using fresh_token [of "[Rejected (httpError 401 [])]"]
    by (simp add: a1_def a2_def env_def prod_eq_iff)
  have reply: "ratingReply env k = Rejected (AxiosFailure e)" for k
    by (simp add: env_def scenario_def httpError_def e_def)
  have http: "\<not> isTimeoutCode (ax_code e)" "\<not> svc_isConnectionCode (ax_code e)"
    "ax_response e = Some \<lparr>status = 401, headers = [], data = Undefined\<rparr>"
    by (simp_all add: e_def isTimeoutCode_def svc_isConnectionCode_def)
  note th = C2_single_auth_retry [OF valid token reply http, of integerToString "''req-1''"]
  have st: "status \<lparr>status = 401, headers = [], data = Undefined\<rparr> = 401
      \<or> status \<lparr>status = 401, headers = [], data = Undefined\<rparr> = 403"
    by simp
  note c = th [THEN conjunct1, THEN mp, OF st, unfolded fresh prod.case sum.case]
  note g = c [THEN conjunct1]
  have again: "fst (getRates testConfig env integerToString ''req-1'' 0 validRateRequest newService)
      = Inl (Classified (CarrierApiError ''API error 401'' 401 (Some (carrierId testConfig))
                (Some ''req-1'')))"
    by (rule c [THEN conjunct2, rule_format, of e "\<lparr>status = 401, headers = [], data = Undefined\<rparr>"])
      (simp add: reply http)
  show ?thesis
    using g again by (simp add: env_def newService_def testConfig_def)
qed


lemma missing_rated_shipments_example:
  "fst (getRates testConfig (scenario [Fulfilled rateMissingShipments]) integerToString ''req-1'' 0
          validRateRequest newService)
     = Inl (Classified (ResponseParsingError ''Invalid response structure from UPS Rating API''
              (Some ''UPS'') (Some ''req-1'')))
   \<and> map rp_bearer (ratingPosts (snd (getRates testConfig (scenario [Fulfilled rateMissingShipments])
          integerToString ''req-1'' 0 validRateRequest newService)))
     = [String ''test-access-token'']"
proof -
  define env where "env = scenario [Fulfilled rateMissingShipments]"
  define a1 where "a1 = snd (getAccessToken testConfig env 0 (authManager newService))"
  have lacking: "\<not> value_truthy (data_RatedShipment (data rateMissingShipments))"
    by (simp add: data_RatedShipment_def rateMissingShipments_def)
  have valid: "validateRequest env validRateRequest = Inr validRateRequest"
    by (simp add: env_def validateRequest_def scenario_def)
  have token: "getAccessToken testConfig env 0 (authManager newService)
      = (Inr (String ''test-access-token''), a1)"
    using first_token [of "[Fulfilled rateMissingShipments]"]
    by (simp add: a1_def env_def prod_eq_iff)
  have reply: "ratingReply env (length (ratingPosts newService)) = Fulfilled rateMissingShipments"
    by (simp add: env_def scenario_def newService_def)
  have g: "getRates testConfig env integerToString ''req-1'' 0 validRateRequest newService =
      (Inl (Classified (parsingError ''req-1'')),
       newService\<lparr>authManager := a1,
         ratingPosts := ratingPosts newService @
           [\<lparr>rp_request = wireRequest testConfig integerToString validRateRequest,
             rp_bearer = String ''test-access-token'', rp_transId = ''req-1''\<rparr>]\<rparr>)"
    by (rule missing_rated_shipments [OF lacking, THEN conjunct2, THEN conjunct2,
          THEN conjunct2, THEN conjunct2, THEN conjunct1, rule_format])
      (simp add: valid token reply)
  show ?thesis
    using g by (simp add: env_def newService_def parsingError_def)
qed

text \<open>
  C7. The claim holds for a body in which the list of rated shipments is missing, or
  is a value that counts as false (\<open>missing_rated_shipments\<close>). It fails for a body
  in which \<open>RatedShipment\<close> is there but is not a list, such as a single rated
  shipment: the structural check tests the value for truth only, so the body passes;
  the mapper then calls \<open>map\<close> on the object, and \<open>getRates\<close> fails with that
  \<open>TypeError\<close>, an error outside the taxonomy, instead of the "response parsing
  error".
\<close>

theorem C7_single_shipment_raises_TypeError:
  "lacksRatedShipment (data rateSingleShipment)
   \<and> callRatingApi_result testConfig ''req-1'' (Fulfilled rateSingleShipment)
       = Inr (data rateSingleShipment)
   \<and> fst (getRates testConfig (scenario [Fulfilled rateSingleShipment]) integerToString ''req-1'' 0
            validRateRequest newService)
       = Inl (OtherFailure ''TypeError'')
   \<and> map rp_bearer (ratingPosts (snd (getRates testConfig (scenario [Fulfilled rateSingleShipment])
            integerToString ''req-1'' 0 validRateRequest newService)))
       = [String ''test-access-token'']"
proof -
  define env where "env = scenario [Fulfilled rateSingleShipment]"
  define a1 where "a1 = snd (getAccessToken testConfig env 0 (authManager newService))"
  have lacking: "lacksRatedShipment (data rateSingleShipment)"
    and truthy: "value_truthy (data_RatedShipment (data rateSingleShipment))"
    by (simp_all add: lacksRatedShipment_def data_RatedShipment_def rateSingleShipment_def)
  have valid: "validateRequest env validRateRequest = Inr validRateRequest"
    by (simp add: env_def validateRequest_def scenario_def)
  have token: "getAccessToken testConfig env 0 (authManager newService)
      = (Inr (String ''test-access-token''), a1)"
    using first_token [of "[Fulfilled rateSingleShipment]"]
    by (simp add: a1_def env_def prod_eq_iff)
  have reply: "ratingReply env (length (ratingPosts newService)) = Fulfilled rateSingleShipment"
    by (simp add: env_def scenario_def newService_def)
  have g: "getRates testConfig env integerToString ''req-1'' 0 validRateRequest newService =
      (Inl (OtherFailure ''TypeError''),
       newService\<lparr>authManager := a1,
         ratingPosts := ratingPosts newService @
           [\<lparr>rp_request = wireRequest testConfig integerToString validRateRequest,
             rp_bearer = String ''test-access-token'', rp_transId = ''req-1''\<rparr>]\<rparr>)"
    using lacking truthy valid token reply by (rule non_list_escapes)
  have r: "callRatingApi_result testConfig ''req-1'' (Fulfilled rateSingleShipment)
      = Inr (data rateSingleShipment)"
    using truthy by (rule truthy_result)
  show ?thesis
    using g r lacking by (simp add: env_def newService_def)
qed

section \<open>The request mapper\<close>

lemma digit_char_0: "digit_char 0 = CHR ''0''"
  by code_simp

lemma decimal_small: "n < 10 \<Longrightarrow> decimal n = [digit_char n]"
  by (simp add: decimal.simps [of n])

lemma decimal_large: "\<not> n < 10 \<Longrightarrow> decimal n = decimal (n div 10) @ [digit_char (n mod 10)]"
  by (simp add: decimal.simps [of n])

lemma js_toFixed_1:
  assumes "\<bar>q\<bar> < 10 ^ 21"
  shows "js_toFixed numToString (Fin q) 1 =
           (if q < 0 then ''-'' else []) @ decimal (toFixed_digits q div 10) @ ''.''
             @ [digit_char (toFixed_digits q mod 10)]"
proof -
  let ?n = "toFixed_digits q"
  have small: "\<not> 10 ^ 21 \<le> \<bar>q\<bar>" using assms by simp
  have u: "js_toFixed numToString (Fin q) 1 =
      (if q < 0 then ''-'' else []) @
      (let m1 = (if length (decimal ?n) \<le> 1
                 then replicate (2 - length (decimal ?n)) (CHR ''0'') @ decimal ?n
                 else decimal ?n)
       in take (length m1 - 1) m1 @ ''.'' @ drop (length m1 - 1) m1)"
    using small by (simp add: js_toFixed_def toFixed_digits_def Let_def)
  show ?thesis
  proof (cases "?n < 10")
    case True
    then have "decimal ?n = [digit_char ?n]" "decimal (?n div 10) = ''0''" "?n mod 10 = ?n"
      by (simp_all add: decimal_small digit_char_0)
    then show ?thesis
      unfolding u by (simp add: Let_def)
  next
    case False
    then have d: "decimal ?n = decimal (?n div 10) @ [digit_char (?n mod 10)]"
      by (rule decimal_large)
    have "\<not> length (decimal ?n) \<le> 1"
      by (subst d) (simp add: decimal_nonempty)
    then show ?thesis
      unfolding u by (subst (1 2 3 4) d) (simp add: Let_def decimal_nonempty)
  qed
qed

lemma not_digit_point: "\<not> is_digit (CHR ''.'')"
  by (simp add: is_digit_def)

lemma takeWhile_digits_decimal:
  "takeWhile is_digit (decimal a @ CHR ''.'' # rest) = decimal a"
  using decimal_digits [of a] not_digit_point by (simp add: takeWhile_tail)

lemma dropWhile_digits_decimal:
  "dropWhile is_digit (decimal a @ CHR ''.'' # rest) = CHR ''.'' # rest"
  using decimal_digits [of a] not_digit_point by (simp add: dropWhile_append3 takeWhile_all [symmetric] dropWhile_eq_Nil_conv)

lemma hd_one_decimal:
  "is_digit (hd (decimal a @ CHR ''.'' # rest))" "decimal a @ CHR ''.'' # rest \<noteq> []"
  using hd_decimal_digit [of a] decimal_nonempty [of a] by (simp_all add: hd_append)

lemma one_decimal_place_shape:
  assumes "d < 10"
  shows "one_decimal_place ((if neg then ''-'' else []) @ decimal a @ ''.'' @ [digit_char d])"
proof -
  have h: "hd (decimal a @ [CHR ''.'', digit_char d]) \<noteq> CHR ''-''"
    using hd_one_decimal(1) [of a "[digit_char d]"] is_digit_not_sign by blast
  show ?thesis
    using h assms decimal_nonempty [of a]
    by (simp add: one_decimal_place_def takeWhile_digits_decimal dropWhile_digits_decimal
        is_digit_digit_char Let_def)
qed

lemma not_Infinity: "is_digit (hd s) \<Longrightarrow> s \<noteq> [] \<Longrightarrow> take 8 s \<noteq> ''Infinity''"
  by (cases s) (auto simp: is_digit_def)

lemma unsigned_one_decimal:
  assumes "d < 10"
  shows "js_unsignedDecimalLiteral (decimal a @ [CHR ''.'', digit_char d]) =
           Some (Fin (of_nat a + of_nat d / 10), [])"
proof -
  let ?s = "decimal a @ [CHR ''.'', digit_char d]"
  have inf: "(take 8 ?s = ''Infinity'') = False"
    using not_Infinity [OF hd_one_decimal [of a "[digit_char d]"]] by simp
  have dg: "is_digit (digit_char d)"
    using assms by (rule is_digit_digit_char)
  have v: "digits_value [digit_char d] = d"
    using assms by (simp add: digits_value_def digit_val_digit_char)
  have ip: "takeWhile is_digit ?s = decimal a" "dropWhile is_digit ?s = [CHR ''.'', digit_char d]"
    by (simp_all add: takeWhile_digits_decimal dropWhile_digits_decimal)
  show ?thesis
    unfolding js_unsignedDecimalLiteral_def inf ip
    using decimal_nonempty [of a] dg
    by (simp add: Let_def v digits_value_decimal js_exponentPart_def)
qed

lemma strDecimal_unsigned:
  "s \<noteq> [] \<Longrightarrow> hd s \<noteq> CHR ''+'' \<Longrightarrow> hd s \<noteq> CHR ''-'' \<Longrightarrow>
     js_strDecimalLiteral s = js_unsignedDecimalLiteral s"
  by (cases s) (simp_all add: js_strDecimalLiteral_def)

lemma js_parseFloat_one_decimal:
  assumes "d < 10"
  shows "js_parseFloat ((if neg then ''-'' else []) @ decimal a @ ''.'' @ [digit_char d]) =
           Fin ((if neg then - 1 else 1) * (of_nat a + of_nat d / 10))"
proof -
  let ?s = "decimal a @ [CHR ''.'', digit_char d]"
  note h = hd_one_decimal [of a "[digit_char d]"]
  have nosp: "\<not> js_isWhiteSpace (hd ?s)" and nosign: "hd ?s \<noteq> CHR ''+''" "hd ?s \<noteq> CHR ''-''"
    using h(1) is_digit_not_space is_digit_not_sign by blast+
  have pos: "js_strDecimalLiteral ?s = Some (Fin (of_nat a + of_nat d / 10), [])"
    using strDecimal_unsigned [OF h(2) nosign] unsigned_one_decimal [OF assms, of a] by simp
  have trim: "dropWhile js_isWhiteSpace ?s = ?s"
    using h(2) nosp by (rule dropWhile_head)
  show ?thesis
  proof (cases neg)
    case False
    then show ?thesis
      using pos trim by (simp add: js_parseFloat_def)
  next
    case True
    have "js_strDecimalLiteral (CHR ''-'' # ?s) = Some (Fin (- (of_nat a + of_nat d / 10)), [])"
      using unsigned_one_decimal [OF assms, of a]
      by (simp add: js_strDecimalLiteral_def js_negate_def)
    then show ?thesis
      using True by (simp add: js_parseFloat_def js_isWhiteSpace_def)
  qed
qed

lemma toFixed_digits_close:
  "\<bar>rat_of_nat (toFixed_digits q) / 10 - \<bar>q\<bar>\<bar> \<le> 1 / 20"
proof -
  define x where "x = \<bar>q\<bar> * 10"
  have "0 \<le> x + 1 / 2" by (simp add: x_def)
  then have nn: "0 \<le> \<lfloor>x + 1 / 2\<rfloor>" by (simp only: zero_le_floor)
  have eq: "rat_of_nat (toFixed_digits q) = of_int \<lfloor>x + 1 / 2\<rfloor>"
    using nn by (simp add: toFixed_digits_def x_def)
  have "of_int \<lfloor>x + 1 / 2\<rfloor> \<le> x + 1 / 2" "x + 1 / 2 < of_int \<lfloor>x + 1 / 2\<rfloor> + 1"
    by linarith+
  then have half: "\<bar>of_int \<lfloor>x + 1 / 2\<rfloor> - x\<bar> \<le> 1 / 2"
    by linarith
  have e2: "rat_of_nat (toFixed_digits q) / 10 - \<bar>q\<bar> = (of_int \<lfloor>x + 1 / 2\<rfloor> - x) / 10"
    by (simp add: eq x_def diff_divide_distrib)
  have e3: "\<bar>(of_int \<lfloor>x + 1 / 2\<rfloor> - x) / 10\<bar> = \<bar>of_int \<lfloor>x + 1 / 2\<rfloor> - x\<bar> / 10"
    by (simp only: abs_divide abs_numeral)
  have "\<bar>of_int \<lfloor>x + 1 / 2\<rfloor> - x\<bar> / 10 \<le> (1 / 2) / 10"
    using half by (rule divide_right_mono) simp
  then show ?thesis unfolding e2 e3 by simp
qed

lemma div_mod_tenth: "rat_of_nat (n div 10) + rat_of_nat (n mod 10) / 10 = rat_of_nat n / 10"
proof -
  have "rat_of_nat n = rat_of_nat (10 * (n div 10) + n mod 10)"
    by simp
  also have "\<dots> = 10 * rat_of_nat (n div 10) + rat_of_nat (n mod 10)"
    by (simp only: of_nat_add of_nat_mult of_nat_numeral)
  finally show ?thesis by simp
qed

lemma weight_one_decimal:
  assumes "\<bar>q\<bar> < 10 ^ 21"
  shows "one_decimal_place (js_toFixed numToString (Fin q) 1)
       \<and> (\<exists>r. js_parseFloat (js_toFixed numToString (Fin q) 1) = Fin r \<and> \<bar>r - q\<bar> \<le> 1 / 20)"
proof -
  let ?n = "toFixed_digits q"
  have d: "?n mod 10 < 10" by simp
  have f: "js_toFixed numToString (Fin q) 1 =
      (if q < 0 then ''-'' else []) @ decimal (?n div 10) @ ''.'' @ [digit_char (?n mod 10)]"
    using assms by (rule js_toFixed_1)
  have shape: "one_decimal_place (js_toFixed numToString (Fin q) 1)"
    unfolding f using d by (rule one_decimal_place_shape)
  have p: "js_parseFloat (js_toFixed numToString (Fin q) 1) =
      Fin ((if q < 0 then - 1 else 1) * (rat_of_nat ?n / 10))"
    unfolding f using js_parseFloat_one_decimal [OF d, of "q < 0" "?n div 10"]
    by (simp only: div_mod_tenth)
  have "\<bar>(if q < 0 then - 1 else 1) * (rat_of_nat ?n / 10) - q\<bar> \<le> 1 / 20"
    using toFixed_digits_close [of q] by (auto simp: abs_if split: if_splits)
  then show ?thesis using shape p by blast
qed


text \<open>
  C8 (as amended). The wire request asks for one service (\<open>RequestOption\<close> "Rate")
  exactly when the domain request names a service level, and for all services ("Shop")
  otherwise. The negotiated-rates indicator is always "Y". A correlation tag that is
  supplied and not empty is the customer context of the transaction reference,
  unchanged; without a tag, or with an empty one, the request has no transaction
  reference. Every package carries the packaging-type code "02", and its weight is
  \<open>toFixed(1)\<close> of the domain weight: for a finite weight below \<open>10^21\<close> in
  magnitude (every weight the schema admits) a decimal numeral with exactly one digit
  after the point, within one twentieth of the weight.
\<close>

theorem C8_domain_to_wire:
  "(RequestOption (Request (toUPSRateRequest numToString rq shipperNumber ctx)) = ''Rate''
      \<longleftrightarrow> serviceLevel rq \<noteq> None)
   \<and> (RequestOption (Request (toUPSRateRequest numToString rq shipperNumber ctx)) = ''Shop''
      \<longleftrightarrow> serviceLevel rq = None)
   \<and> NegotiatedRatesIndicator (Shipment (toUPSRateRequest numToString rq shipperNumber ctx)) = ''Y''
   \<and> (\<forall>c. ctx = Some c \<and> c \<noteq> [] \<longrightarrow>
         TransactionReference_CustomerContext
           (Request (toUPSRateRequest numToString rq shipperNumber ctx)) = Some c)
   \<and> (ctx = None \<or> ctx = Some [] \<longrightarrow>
         TransactionReference_CustomerContext
           (Request (toUPSRateRequest numToString rq shipperNumber ctx)) = None)
   \<and> map PackagingType_Code (Package (Shipment (toUPSRateRequest numToString rq shipperNumber ctx)))
       = replicate (length (packages rq)) ''02''
   \<and> map PackageWeight_Weight
         (Package (Shipment (toUPSRateRequest numToString rq shipperNumber ctx)))
       = map (\<lambda>pkg. js_toFixed numToString (weight_value (weight pkg)) 1) (packages rq)
   \<and> (\<forall>pkg \<in> set (packages rq). \<forall>q. weight_value (weight pkg) = Fin q \<and> \<bar>q\<bar> < 10 ^ 21 \<longrightarrow>
         one_decimal_place (PackageWeight_Weight (toUPSPackage numToString pkg))
         \<and> (\<exists>r. js_parseFloat (PackageWeight_Weight (toUPSPackage numToString pkg)) = Fin r
                \<and> \<bar>r - q\<bar> \<le> 1 / 20))"
proof -
  let ?w = "toUPSRateRequest numToString rq shipperNumber ctx"
  have option: "(RequestOption (Request ?w) = ''Rate'' \<longleftrightarrow> serviceLevel rq \<noteq> None)"
    "(RequestOption (Request ?w) = ''Shop'' \<longleftrightarrow> serviceLevel rq = None)"
    by (simp_all add: toUPSRateRequest_def)
  have negotiated: "NegotiatedRatesIndicator (Shipment ?w) = ''Y''"
    by (simp add: toUPSRateRequest_def)
  have tag: "\<forall>c. ctx = Some c \<and> c \<noteq> [] \<longrightarrow>
      TransactionReference_CustomerContext (Request ?w) = Some c"
    by (simp add: toUPSRateRequest_def)
  have no_tag: "ctx = None \<or> ctx = Some [] \<longrightarrow>
      TransactionReference_CustomerContext (Request ?w) = None"
    by (auto simp: toUPSRateRequest_def)
  have "map PackagingType_Code (map (toUPSPackage numToString) ps)
      = replicate (length ps) ''02''" for ps
    by (induction ps) (simp_all add: toUPSPackage_def)
  then have codes: "map PackagingType_Code (Package (Shipment ?w))
      = replicate (length (packages rq)) ''02''"
    by (simp add: toUPSRateRequest_def)
  have weights: "map PackageWeight_Weight (Package (Shipment ?w))
      = map (\<lambda>pkg. js_toFixed numToString (weight_value (weight pkg)) 1) (packages rq)"
    by (simp add: toUPSRateRequest_def toUPSPackage_def)
  have one: "\<forall>pkg \<in> set (packages rq). \<forall>q. weight_value (weight pkg) = Fin q \<and> \<bar>q\<bar> < 10 ^ 21 \<longrightarrow>
      one_decimal_place (PackageWeight_Weight (toUPSPackage numToString pkg))
      \<and> (\<exists>r. js_parseFloat (PackageWeight_Weight (toUPSPackage numToString pkg)) = Fin r
             \<and> \<bar>r - q\<bar> \<le> 1 / 20)"
  proof (intro ballI allI impI)
    fix pkg :: Package and q :: rat
    assume a: "weight_value (weight pkg) = Fin q \<and> \<bar>q\<bar> < 10 ^ 21"
    have w: "PackageWeight_Weight (toUPSPackage numToString pkg) = js_toFixed numToString (Fin q) 1"
      using a by (simp add: toUPSPackage_def)
    show "one_decimal_place (PackageWeight_Weight (toUPSPackage numToString pkg))
      \<and> (\<exists>r. js_parseFloat (PackageWeight_Weight (toUPSPackage numToString pkg)) = Fin r
             \<and> \<bar>r - q\<bar> \<le> 1 / 20)"
      unfolding w using a by (intro weight_one_decimal) simp
  qed
  show ?thesis
    by (intro conjI option negotiated tag no_tag codes weights one)
qed

theorem C8_domain_to_wire_witness:
  "RequestOption (Request (toUPSRateRequest integerToString validRateRequest
       ''test-account-123'' (Some ''test-reference''))) = ''Shop''
   \<and> RequestOption (Request (toUPSRateRequest integerToString
       (validRateRequest\<lparr>serviceLevel := Some GROUND\<rparr>)
       ''test-account-123'' (Some ''test-reference''))) = ''Rate''
   \<and> TransactionReference_CustomerContext (Request (toUPSRateRequest integerToString
       validRateRequest ''test-account-123'' (Some ''test-reference''))) = Some ''test-reference''
   \<and> map PackageWeight_Weight (Package (Shipment (toUPSRateRequest integerToString
       validRateRequest ''test-account-123'' (Some ''test-reference'')))) = [''5.5'']
   \<and> one_decimal_place ''5.5''"
proof -
  note th = C8_domain_to_wire
    [of integerToString validRateRequest "''test-account-123''" "Some ''test-reference''"]
  note th' = C8_domain_to_wire
    [of integerToString "validRateRequest\<lparr>serviceLevel := Some GROUND\<rparr>"
        "''test-account-123''" "Some ''test-reference''"]
  have f: "js_toFixed integerToString (Fin (11 / 2)) 1 = ''5.5''"
    by code_simp
  have p: "packages validRateRequest =
      [\<lparr>weight = \<lparr>weight_value = Fin (11 / 2), weight_unit = LB\<rparr>,
        dimensions = Some \<lparr>dim_length = Fin 12, dim_width = Fin 8,
                           dim_height = Fin 6, dim_unit = IN\<rparr>\<rparr>]"
    and sl: "serviceLevel validRateRequest = None"
    by (simp_all add: validRateRequest_def)
  have 1: "RequestOption (Request (toUPSRateRequest integerToString validRateRequest
       ''test-account-123'' (Some ''test-reference''))) = ''Shop''"
    using th sl by blast
  have 2: "RequestOption (Request (toUPSRateRequest integerToString
       (validRateRequest\<lparr>serviceLevel := Some GROUND\<rparr>)
       ''test-account-123'' (Some ''test-reference''))) = ''Rate''"
    using th' by simp
  have 3: "TransactionReference_CustomerContext (Request (toUPSRateRequest integerToString
       validRateRequest ''test-account-123'' (Some ''test-reference''))) = Some ''test-reference''"
    using th by simp
  have 4: "map PackageWeight_Weight (Package (Shipment (toUPSRateRequest integerToString
       validRateRequest ''test-account-123'' (Some ''test-reference'')))) = [''5.5'']"
    using th by (simp add: p f del: One_nat_def)
  have "one_decimal_place (PackageWeight_Weight (toUPSPackage integerToString
      \<lparr>weight = \<lparr>weight_value = Fin (11 / 2), weight_unit = LB\<rparr>,
        dimensions = Some \<lparr>dim_length = Fin 12, dim_width = Fin 8,
                           dim_height = Fin 6, dim_unit = IN\<rparr>\<rparr>))"
    by (rule th [THEN conjunct2, THEN conjunct2, THEN conjunct2, THEN conjunct2,
          THEN conjunct2, THEN conjunct2, THEN conjunct2, rule_format, of _ "11 / 2",
          THEN conjunct1])
      (simp_all add: p)
  then have 5: "one_decimal_place ''5.5''"
    by (simp add: toUPSPackage_def f del: One_nat_def)
  show ?thesis using 1 2 3 4 5 by blast
qed

text \<open>The claim as stated fails for a tag that is supplied but empty: it does not appear
  in the wire request, which then has no transaction reference.\<close>

theorem C8_empty_tag_is_dropped:
  "TransactionReference_CustomerContext
     (Request (toUPSRateRequest integerToString validRateRequest ''test-account-123'' (Some '''')))
     = None"
  by (simp add: toUPSRateRequest_def)

section \<open>The response mapper\<close>

text \<open>
  C9. The claim holds but for one case of its rule for transit days. A
  \<open>BusinessDaysInTransit\<close> that is not numeric is to be omitted, and one such as "abc"
  is: \<open>Number\<close> of it is \<open>NaN\<close> and the guard rejects it. A blank one (white space
  only) is not: \<open>Number\<close> of it is \<open>0\<close>, so the guard lets it through, and
  \<open>parseInt\<close> of it is \<open>NaN\<close>, which becomes the quote's business days in
  transit.
\<close>

theorem C9_blank_transit_days:
  "js_isNaN (js_Number ''abc'')
   \<and> \<not> js_isNaN (js_Number '' '')
   \<and> js_parseInt '' '' = NaN
   \<and> businessDaysInTransit (toRateQuote blankTransitDays) = Some NaN"
  by (simp add: toRateQuote_def blankTransitDays_def groundShipment_def js_Number_def js_trim_def
      js_isWhiteSpace_def js_isNaN_def js_parseInt_def js_nonDecimalIntegerLiteral_def
      js_strDecimalLiteral_def js_unsignedDecimalLiteral_def is_digit_def Let_def)


text \<open>The rest of the response mapping: one quote per rated shipment, in order (none
  for none); the amounts read by \<open>parseFloat\<close> with their currency code; the service
  level "STANDARD" when the description is missing or empty; the alert descriptions as
  warnings; the transit days omitted when the field is missing, empty or rejected by
  \<open>Number\<close>, and the number \<open>n\<close> when the field is its decimal numeral.\<close>

lemma dropWhile_digits_space:
  "\<forall>c \<in> set xs. is_digit c \<Longrightarrow> dropWhile js_isWhiteSpace xs = xs"
  by (cases xs) (simp_all add: is_digit_not_space)

lemma js_trim_decimal: "js_trim (decimal n) = decimal n"
  using decimal_digits [of n] by (simp add: js_trim_def dropWhile_digits_space)

lemma nonDecimal_digits:
  "\<forall>c \<in> set s. is_digit c \<Longrightarrow> js_nonDecimalIntegerLiteral s = None"
  by (auto simp: js_nonDecimalIntegerLiteral_def is_digit_def Let_def split: list.splits)

lemma unsigned_decimal:
  "js_unsignedDecimalLiteral (decimal n) = Some (Fin (of_nat n), [])"
proof -
  have inf: "(take 8 (decimal n) = ''Infinity'') = False"
    using not_Infinity [OF hd_decimal_digit decimal_nonempty, of n] by simp
  have ip: "takeWhile is_digit (decimal n) = decimal n" "dropWhile is_digit (decimal n) = []"
    using decimal_digits [of n] by (simp_all add: takeWhile_all)
  have z: "digits_value [] = 0"
    by (simp add: digits_value_def)
  show ?thesis
    unfolding js_unsignedDecimalLiteral_def inf ip
    by (simp add: Let_def decimal_nonempty digits_value_decimal js_exponentPart_def z)
qed

lemma js_Number_decimal: "js_Number (decimal n) = Fin (of_nat n)"
proof -
  have s: "hd (decimal n) \<noteq> CHR ''+''" "hd (decimal n) \<noteq> CHR ''-''"
    using hd_decimal_digit [of n] is_digit_not_sign by blast+
  have "js_strDecimalLiteral (decimal n) = Some (Fin (of_nat n), [])"
    using strDecimal_unsigned [OF decimal_nonempty s] unsigned_decimal by simp
  then show ?thesis
    using decimal_digits [of n]
    by (simp add: js_Number_def js_trim_decimal decimal_nonempty nonDecimal_digits)
qed

lemma wire_to_domain_quotes:
  "RatedShipment (fromUPSRateResponse upsResponse requestId originalRequest)
     = map toRateQuote (UPS_RatedShipment upsResponse)
   \<and> length (RatedShipment (fromUPSRateResponse upsResponse requestId originalRequest))
     = length (UPS_RatedShipment upsResponse)
   \<and> carrierServiceCode (toRateQuote rated) = Service_Code rated
   \<and> totalCost (toRateQuote rated)
     = \<lparr>amount = js_parseFloat (MonetaryValue (TotalCharges rated)),
        currency = CurrencyCode (TotalCharges rated)\<rparr>
   \<and> quote_serviceLevel (toRateQuote rated)
     = (case Service_Description rated of
          Some description \<Rightarrow> if description = [] then ''STANDARD'' else description
        | None \<Rightarrow> ''STANDARD'')
   \<and> warnings (toRateQuote rated) = map_option (map Alert_Description) (RatedShipmentAlert rated)
   \<and> (GuaranteedDelivery rated = None \<or> GuaranteedDelivery rated = Some None
        \<or> GuaranteedDelivery rated = Some (Some []) \<longrightarrow>
        businessDaysInTransit (toRateQuote rated) = None)
   \<and> (\<forall>days. GuaranteedDelivery rated = Some (Some days) \<and> js_isNaN (js_Number days) \<longrightarrow>
        businessDaysInTransit (toRateQuote rated) = None)
   \<and> (\<forall>n. GuaranteedDelivery rated = Some (Some (decimal n)) \<longrightarrow>
        businessDaysInTransit (toRateQuote rated) = Some (Fin (of_nat n)))"
  by (auto simp: fromUPSRateResponse_def toRateQuote_def toMoney_def or_default_def
      js_Number_decimal js_parseInt_decimal js_isNaN_def decimal_nonempty split: option.splits)

lemma total_500_USD:
  "totalCost (toRateQuote (groundShipment\<lparr>TotalCharges :=
      \<lparr>CurrencyCode = ''USD'', MonetaryValue = ''500''\<rparr>\<rparr>))
     = \<lparr>amount = Fin 500, currency = ''USD''\<rparr>"
proof -
  have "js_parseFloat ''500'' = Fin 500"
    by code_simp
  then show ?thesis
    by (simp add: toRateQuote_def toMoney_def groundShipment_def)
qed

text \<open>The successful reply of the test suite is accepted as it is, and its rated
  shipment becomes the quote the tests expect.\<close>

lemma successful_reply:
  "(case callRatingApi_result testConfig ''req-1'' rateOk of
      Inl err \<Rightarrow> Inl (Classified err)
    | Inr upsResponse \<Rightarrow> fromUPSRateResponse_untyped upsResponse ''req-1'' validRateRequest)
     = Inr \<lparr>Response_ResponseStatus = \<lparr>rs_Code = ''1'', rs_Description = ''Success''\<rparr>,
            RatedShipment = [toRateQuote groundShipment]\<rparr>"
  by (simp add: callRatingApi_result_def rateOk_def data_RatedShipment_def
      fromUPSRateResponse_untyped_def fromUPSRateResponse_def)

lemma ground_quote:
  "toRateQuote groundShipment =
     \<lparr>quote_serviceLevel = ''UPS Ground'', serviceName = ''UPS Ground'',
      carrierServiceCode = ''03'',
      totalCost = \<lparr>amount = Fin (25 / 2), currency = ''USD''\<rparr>,
      transportationCost = Some \<lparr>amount = Fin (25 / 2), currency = ''USD''\<rparr>,
      serviceOptionsCost = Some \<lparr>amount = Fin 0, currency = ''USD''\<rparr>,
      billingWeight = Some \<lparr>qw_value = Fin (11 / 2), qw_unit = ''LBS''\<rparr>,
      businessDaysInTransit = Some (Fin 5),
      warnings = None\<rparr>"
proof -
  have "js_parseFloat ''12.50'' = Fin (25 / 2)" "js_parseFloat ''0.00'' = Fin 0"
    "js_parseFloat ''5.5'' = Fin (11 / 2)" "js_Number ''5'' = Fin 5" "js_parseInt ''5'' = Fin 5"
    by code_simp+
  then show ?thesis
    by (simp add: toRateQuote_def groundShipment_def toMoney_def or_default_def js_isNaN_def)
qed

end
